theory Spec2Isabelle
  imports Complex_Main
begin

section \<open>Python values\<close>

text \<open>
  The program is one Flask module, \<^verbatim>\<open>app.py\<close>. Its functions read a spreadsheet into a
  pandas DataFrame, call the SerpAPI client and write the spreadsheet back. The values they
  handle are Python strings, the JSON document the API client returns, and exceptions.

  Strings are \<^typ>\<open>string\<close>. The helpers below follow \<^verbatim>\<open>str\<close> on ASCII text: \<open>py_lower\<close>
  maps \<open>A\<close>..\<open>Z\<close> to \<open>a\<close>..\<open>z\<close> and leaves every other character, \<open>py_strip\<close> removes the
  ASCII white space Python removes.
\<close>

datatype pyfloat = Float_finite rat | Float_inf | Float_neg_inf | Float_nan

datatype json =
    JNull
  | JBool bool
  | JInt int
  | JFloat pyfloat
  | JStr string
  | JList "json list"
  | JDict "(string \<times> json) list"

text \<open>
  The exceptions that the modelled operations can raise. All of them derive from Python's
  \<^verbatim>\<open>Exception\<close>. \<open>OSError\<close> stands for an \<^verbatim>\<open>OSError\<close> that is not a \<^verbatim>\<open>PermissionError\<close> (a full
  disk, a read-only file system); \<open>LibraryError\<close> for any other exception of a library
  (a transport or a parse error of the API client).
\<close>

datatype exn =
    AttributeError
  | TypeError
  | KeyError
  | IndexError
  | ValueError
  | OverflowError
  | UnicodeEncodeError
  | FileNotFoundError
  | PermissionError
  | OSError
  | LibraryError string

definition and_then :: "exn + 'a \<Rightarrow> ('a \<Rightarrow> exn + 'b) \<Rightarrow> exn + 'b" where
  "and_then x f = (case x of Inl e \<Rightarrow> Inl e | Inr v \<Rightarrow> f v)"

subsection \<open>Strings\<close>

text \<open>\<^verbatim>\<open>sub in s\<close>\<close>

fun py_in :: "string \<Rightarrow> string \<Rightarrow> bool" where
  "py_in sub [] = (sub = [])"
| "py_in sub (c # cs) = (take (length sub) (c # cs) = sub \<or> py_in sub cs)"

text \<open>
  \<^verbatim>\<open>s.split(sep)\<close>: the pieces between the occurrences of \<open>sep\<close>, found from the left and
  not overlapping. \<open>acc\<close> holds the current piece, reversed. Python raises on an empty
  separator; the two separators of the source are the constants \<^verbatim>\<open>"user="\<close> and \<^verbatim>\<open>"&"\<close>.
\<close>

fun split_from :: "string \<Rightarrow> string \<Rightarrow> string \<Rightarrow> string list" where
  "split_from sep acc [] = [rev acc]"
| "split_from sep acc (c # cs) =
     (if sep \<noteq> [] \<and> take (length sep) (c # cs) = sep
      then rev acc # split_from sep [] (drop (length sep) (c # cs))
      else split_from sep (c # acc) cs)"

definition py_split :: "string \<Rightarrow> string \<Rightarrow> string list" where
  "py_split s sep = split_from sep [] s"

text \<open>\<^verbatim>\<open>xs[i]\<close> for \<open>i \<ge> 0\<close>\<close>

definition py_index :: "'a list \<Rightarrow> nat \<Rightarrow> exn + 'a" where
  "py_index xs i = (if i < length xs then Inr (xs ! i) else Inl IndexError)"

definition is_space :: "char \<Rightarrow> bool" where
  "is_space c = (c \<in> set [CHR '' '', CHR 0x09, CHR 0x0A, CHR 0x0B, CHR 0x0C, CHR 0x0D,
                           CHR 0x1C, CHR 0x1D, CHR 0x1E, CHR 0x1F])"

definition py_strip :: "string \<Rightarrow> string" where
  "py_strip s = rev (dropWhile is_space (rev (dropWhile is_space s)))"

definition lower_char :: "char \<Rightarrow> char" where
  "lower_char c =
     (let n = (of_char c :: nat) in if 65 \<le> n \<and> n \<le> 90 then char_of (n + 32) else c)"

definition py_lower :: "string \<Rightarrow> string" where
  "py_lower s = map lower_char s"

definition startswith :: "string \<Rightarrow> string \<Rightarrow> bool" where
  "startswith s pre = (take (length pre) s = pre)"

subsection \<open>JSON documents\<close>

text \<open>
  A dict is an association list; a lookup takes the first binding of the key (the parsed
  document has one binding per key).
\<close>

fun truthy :: "json \<Rightarrow> bool" where
  "truthy JNull = False"
| "truthy (JBool b) = b"
| "truthy (JInt n) = (n \<noteq> 0)"
| "truthy (JFloat x) = (x \<noteq> Float_finite 0)"
| "truthy (JStr s) = (s \<noteq> [])"
| "truthy (JList xs) = (xs \<noteq> [])"
| "truthy (JDict kvs) = (kvs \<noteq> [])"

text \<open>\<^verbatim>\<open>a or b\<close>\<close>

definition py_or :: "json \<Rightarrow> json \<Rightarrow> json" where
  "py_or a b = (if truthy a then a else b)"

text \<open>\<^verbatim>\<open>d.get(key, default)\<close>; on a value that is no dict, \<^verbatim>\<open>AttributeError\<close>.\<close>

fun dict_get :: "json \<Rightarrow> string \<Rightarrow> json \<Rightarrow> exn + json" where
  "dict_get (JDict kvs) key dflt = Inr (case map_of kvs key of Some v \<Rightarrow> v | None \<Rightarrow> dflt)"
| "dict_get _ key dflt = Inl AttributeError"

text \<open>\<^verbatim>\<open>len(x)\<close>\<close>

fun py_len :: "json \<Rightarrow> exn + nat" where
  "py_len (JList xs) = Inr (length xs)"
| "py_len (JStr s) = Inr (length s)"
| "py_len (JDict kvs) = Inr (length kvs)"
| "py_len _ = Inl TypeError"

text \<open>
  \<^verbatim>\<open>x[i]\<close> for an integer \<open>i \<ge> 0\<close>: an element of a list, a character of a string; a dict
  of a JSON document has string keys only, so an integer key is a \<^verbatim>\<open>KeyError\<close>.
\<close>

fun py_getitem :: "json \<Rightarrow> nat \<Rightarrow> exn + json" where
  "py_getitem (JList xs) i = py_index xs i"
| "py_getitem (JStr s) i = and_then (py_index s i) (\<lambda>c. Inr (JStr [c]))"
| "py_getitem (JDict kvs) i = Inl KeyError"
| "py_getitem _ i = Inl TypeError"

text \<open>\<^verbatim>\<open>x == 0\<close>\<close>

fun py_eq_0 :: "json \<Rightarrow> bool" where
  "py_eq_0 (JInt n) = (n = 0)"
| "py_eq_0 (JBool b) = (\<not> b)"
| "py_eq_0 (JFloat x) = (x = Float_finite 0)"
| "py_eq_0 _ = False"

text \<open>
  \<^verbatim>\<open>int(x)\<close>. A float is truncated towards zero. What \<^verbatim>\<open>int\<close> makes of a string is a
  parameter, \<open>int_of_str\<close> (\<open>None\<close>: the string is no integer literal, a \<^verbatim>\<open>ValueError\<close>).
\<close>

fun py_int :: "(string \<Rightarrow> int option) \<Rightarrow> json \<Rightarrow> exn + int" where
  "py_int int_of_str (JInt n) = Inr n"
| "py_int int_of_str (JBool b) = Inr (if b then 1 else 0)"
| "py_int int_of_str (JFloat (Float_finite q)) = Inr (if 0 \<le> q then \<lfloor>q\<rfloor> else \<lceil>q\<rceil>)"
| "py_int int_of_str (JFloat Float_nan) = Inl ValueError"
| "py_int int_of_str (JFloat _) = Inl OverflowError"
| "py_int int_of_str (JStr s) = (case int_of_str s of Some n \<Rightarrow> Inr n | None \<Rightarrow> Inl ValueError)"
| "py_int int_of_str _ = Inl TypeError"

section \<open>The table and the outside world\<close>

text \<open>
  A row of the spreadsheet. The code reads the name and the URL of a row only through
  \<^verbatim>\<open>str\<close> (\<^verbatim>\<open>astype(str)\<close>, \<^verbatim>\<open>str(row[...])\<close>), so these two fields hold that string (an empty
  cell reads as \<^verbatim>\<open>"nan"\<close>). A metric or a serial number is \<open>None\<close> when the cell is empty.
  The columns of the names, the URLs and the metrics are taken to exist, as the code takes
  them; the code tests for the column \<^verbatim>\<open>Sr.No\<close>, hence \<open>has_Sr_No\<close>.
\<close>

record row =
  Sr_No :: "int option"
  Name_of_Faculty :: string
  Profile_URL :: string
  Citations :: "int option"
  h_index :: "int option"
  i10_index :: "int option"

record dataframe =
  has_Sr_No :: bool
  rows :: "row list"

record params =
  engine :: string
  author_id :: string
  hl :: string
  api_key :: string

text \<open>The dict \<^verbatim>\<open>fetch_scholar_data\<close> returns.\<close>

record metrics =
  m_Name :: json
  m_Citations :: int
  m_H_index :: int
  m_i10_index :: int

datatype log_line =
    Invalid_Scholar_URL string
  | Empty_data nat string
  | Fetched json int int int
  | Error_attempt nat string exn
  | Failed_to_fetch string
  | Fatal_error exn
  | Updating string
  | Could_not_save
  | Could_not_save_deleting
  | Could_not_save_updated

datatype event = Api_call params | Sleep | Print log_line

text \<open>
  What the program does to the outside: the trace of its API calls, its calls of
  \<^verbatim>\<open>time.sleep(SLEEP_BETWEEN_CALLS)\<close> and its printed lines, in order, and the files.
  \<^verbatim>\<open>time.sleep\<close> is taken to return. \<open>print_line\<close> is a \<^verbatim>\<open>print\<close> that returns, on a
  stdout that can encode every line; \<open>fetch_scholar_data_io\<close> below is \<open>fetch_scholar_data\<close>
  on a stdout that can refuse a line.
\<close>

record world =
  trace :: "event list"
  files :: "string \<Rightarrow> dataframe option"

datatype outcome = Returns json | Raises exn

text \<open>
  What the outside does to the program: the configured key, the answer of the API client to
  the \<open>n\<close>-th call of a run (a document, or an exception), Python's \<^verbatim>\<open>int\<close> on strings, and
  whether writing a file fails.
\<close>

record env =
  SERPAPI_KEY :: string
  get_dict :: "nat \<Rightarrow> params \<Rightarrow> outcome"
  int_of_str :: "string \<Rightarrow> int option"
  to_excel_raises :: "string \<Rightarrow> exn option"

definition DATA_PATH :: string where
  "DATA_PATH = ''data/faculty_data.xlsx''"

definition UPDATED_PATH :: string where
  "UPDATED_PATH = ''data/faculty_data_updated.xlsx''"

definition print_line :: "log_line \<Rightarrow> world \<Rightarrow> world" where
  "print_line l w = w\<lparr>trace := trace w @ [Print l]\<rparr>"

definition sleep :: "world \<Rightarrow> world" where
  "sleep w = w\<lparr>trace := trace w @ [Sleep]\<rparr>"

fun is_call :: "event \<Rightarrow> bool" where
  "is_call (Api_call p) = True"
| "is_call _ = False"

definition n_calls :: "world \<Rightarrow> nat" where
  "n_calls w = length (filter is_call (trace w))"

text \<open>\<^verbatim>\<open>GoogleSearch(params).get_dict()\<close>\<close>

definition search_get_dict :: "env \<Rightarrow> params \<Rightarrow> world \<Rightarrow> outcome \<times> world" where
  "search_get_dict env p w = (get_dict env (n_calls w) p, w\<lparr>trace := trace w @ [Api_call p]\<rparr>)"

section \<open>fetch\_scholar\_data\<close>

text \<open>
  \<^verbatim>\<open>d.get("all") or d.get("since_2020") or d.get("since_2019") or 0\<close>
\<close>

definition window_value :: "json \<Rightarrow> exn + json" where
  "window_value d =
     and_then (dict_get d ''all'' JNull) (\<lambda>a.
     if truthy a then Inr a else
     and_then (dict_get d ''since_2020'' JNull) (\<lambda>b.
     if truthy b then Inr b else
     and_then (dict_get d ''since_2019'' JNull) (\<lambda>c.
     Inr (py_or c (JInt 0)))))"

text \<open>
  One of the three blocks of the source, for the position \<open>i\<close> and the key of the group:
  \<^verbatim>\<open>if len(table) >= i + 1: d = table[i].get(key, {}) or {}; value = d.get("all") or ...\<close>,
  with the default \<open>0\<close> otherwise.
\<close>

definition metric_group :: "json \<Rightarrow> nat \<Rightarrow> string \<Rightarrow> exn + json" where
  "metric_group table i key =
     and_then (py_len table) (\<lambda>n.
     if n \<ge> i + 1 then
       and_then (py_getitem table i) (\<lambda>entry.
       and_then (dict_get entry key (JDict [])) (\<lambda>g.
       window_value (py_or g (JDict []))))
     else Inr (JInt 0))"

text \<open>The lines of an attempt up to \<^verbatim>\<open>name = author.get("name", "Unknown")\<close>.\<close>

definition normalize :: "json \<Rightarrow> exn + (json \<times> json \<times> json \<times> json)" where
  "normalize results =
     and_then (dict_get results ''author'' (JDict [])) (\<lambda>author.
     and_then (dict_get results ''cited_by'' (JDict [])) (\<lambda>cited_by.
     and_then (dict_get cited_by ''table'' (JList [])) (\<lambda>table.
     and_then (metric_group table 0 ''citations'') (\<lambda>citations_all.
     and_then (metric_group table 1 ''h_index'') (\<lambda>h_index_all.
     and_then (metric_group table 2 ''i10_index'') (\<lambda>i10_index_all.
     and_then (dict_get author ''name'' (JStr ''Unknown'')) (\<lambda>name.
     Inr (name, citations_all, h_index_all, i10_index_all))))))))"

datatype attempt_result = Retry | Got metrics

text \<open>
  The rest of an attempt: \<open>Retry\<close> is the \<^verbatim>\<open>continue\<close> of the empty case (its print and its
  sleep are in \<open>attempts\<close>), \<open>Got\<close> the returned dict.
\<close>

definition read_results :: "env \<Rightarrow> json \<Rightarrow> exn + attempt_result" where
  "read_results env results =
     and_then (normalize results) (\<lambda>(name, citations_all, h_index_all, i10_index_all).
     if name = JStr ''Unknown'' \<and> py_eq_0 citations_all \<and> py_eq_0 h_index_all then Inr Retry
     else
       and_then (py_int (int_of_str env) (py_or citations_all (JInt 0))) (\<lambda>c.
       and_then (py_int (int_of_str env) (py_or h_index_all (JInt 0))) (\<lambda>h.
       and_then (py_int (int_of_str env) (py_or i10_index_all (JInt 0))) (\<lambda>i.
       Inr (Got \<lparr>m_Name = name, m_Citations = c, m_H_index = h, m_i10_index = i\<rparr>)))))"

text \<open>What the \<open>k\<close>-th API call of a run leads to, for the parameters \<open>p\<close>.\<close>

definition attempt_outcome :: "env \<Rightarrow> params \<Rightarrow> nat \<Rightarrow> exn + attempt_result" where
  "attempt_outcome env p k =
     (case get_dict env k p of Raises e \<Rightarrow> Inl e | Returns results \<Rightarrow> read_results env results)"

text \<open>
  The loop \<^verbatim>\<open>for attempt in range(retries)\<close> with its \<^verbatim>\<open>try\<close>, and the two lines after it.
\<close>

fun attempts :: "env \<Rightarrow> string \<Rightarrow> params \<Rightarrow> nat list \<Rightarrow> world \<Rightarrow> metrics option \<times> world" where
  "attempts env profile_url p [] w = (None, print_line (Failed_to_fetch profile_url) w)"
| "attempts env profile_url p (attempt # rest) w =
     (let (out, w1) = search_get_dict env p w in
      case (case out of Raises e \<Rightarrow> Inl e | Returns results \<Rightarrow> read_results env results) of
        Inl e \<Rightarrow>
          attempts env profile_url p rest
            (sleep (print_line (Error_attempt (attempt + 1) profile_url e) w1))
      | Inr Retry \<Rightarrow>
          attempts env profile_url p rest
            (sleep (print_line (Empty_data (attempt + 1) profile_url) w1))
      | Inr (Got m) \<Rightarrow>
          (Some m,
           print_line (Fetched (m_Name m) (m_Citations m) (m_H_index m) (m_i10_index m)) w1))"

definition scholar_params :: "env \<Rightarrow> string \<Rightarrow> params" where
  "scholar_params env user_id =
     \<lparr>engine = ''google_scholar_author'', author_id = user_id, hl = ''en'',
      api_key = SERPAPI_KEY env\<rparr>"

text \<open>\<^verbatim>\<open>profile_url.split("user=")[1].split("&")[0]\<close>\<close>

definition extract_user_id :: "string \<Rightarrow> exn + string" where
  "extract_user_id profile_url =
     and_then (py_index (py_split profile_url ''user='') 1) (\<lambda>t.
     py_index (py_split t ''&'') 0)"

text \<open>The body of the outer \<^verbatim>\<open>try\<close>.\<close>

definition fetch_body ::
  "env \<Rightarrow> string \<Rightarrow> nat \<Rightarrow> world \<Rightarrow> (exn + metrics option) \<times> world" where
  "fetch_body env profile_url retries w =
     (if \<not> py_in ''user='' profile_url
      then (Inr None, print_line (Invalid_Scholar_URL profile_url) w)
      else
        (case extract_user_id profile_url of
           Inl e \<Rightarrow> (Inl e, w)
         | Inr user_id \<Rightarrow>
             (let (r, w') = attempts env profile_url (scholar_params env user_id) [0..<retries] w
              in (Inr r, w'))))"

text \<open>
  \<^verbatim>\<open>fetch_scholar_data(profile_url, retries=2)\<close>: the body under
  \<^verbatim>\<open>except Exception\<close>. \<open>Inl\<close> is an exception that reaches the caller.
\<close>

definition fetch_scholar_data ::
  "env \<Rightarrow> string \<Rightarrow> nat \<Rightarrow> world \<Rightarrow> (exn + metrics option) \<times> world" where
  "fetch_scholar_data env profile_url retries w =
     (case fetch_body env profile_url retries w of
        (Inl e, w') \<Rightarrow> (Inr None, print_line (Fatal_error e) w')
      | (Inr r, w') \<Rightarrow> (Inr r, w'))"

section \<open>fetch\_scholar\_data on a stdout that can refuse a line\<close>

text \<open>
  \<^verbatim>\<open>print\<close> raises when stdout cannot encode the text: every line that the program prints
  starts with an emoji, which a stdout with an ASCII or a cp1252 encoding refuses with
  \<^verbatim>\<open>UnicodeEncodeError\<close>. \<open>stdout l\<close> is the exception that \<^verbatim>\<open>print\<close> raises for the line
  \<open>l\<close>, \<open>None\<close> when the line is written; a line that is refused leaves nothing in the
  trace.
\<close>

definition print_to ::
  "(log_line \<Rightarrow> exn option) \<Rightarrow> log_line \<Rightarrow> world \<Rightarrow> (exn + unit) \<times> world" where
  "print_to stdout l w =
     (case stdout l of Some e \<Rightarrow> (Inl e, w) | None \<Rightarrow> (Inr (), print_line l w))"

text \<open>
  The body of the inner \<^verbatim>\<open>try\<close> for one attempt. \<open>Inl\<close> is an exception raised in it,
  \<open>Inr None\<close> its \<^verbatim>\<open>continue\<close>, \<open>Inr (Some m)\<close> its \<^verbatim>\<open>return\<close>.
\<close>

definition attempt_io ::
  "(log_line \<Rightarrow> exn option) \<Rightarrow> env \<Rightarrow> string \<Rightarrow> params \<Rightarrow> nat \<Rightarrow> world
     \<Rightarrow> (exn + metrics option) \<times> world" where
  "attempt_io stdout env profile_url p attempt w =
     (let (out, w1) = search_get_dict env p w in
      case (case out of Raises e \<Rightarrow> Inl e | Returns results \<Rightarrow> read_results env results) of
        Inl e \<Rightarrow> (Inl e, w1)
      | Inr Retry \<Rightarrow>
          (case print_to stdout (Empty_data (attempt + 1) profile_url) w1 of
             (Inl e, w2) \<Rightarrow> (Inl e, w2)
           | (Inr u, w2) \<Rightarrow> (Inr None, sleep w2))
      | Inr (Got m) \<Rightarrow>
          (case print_to stdout
                  (Fetched (m_Name m) (m_Citations m) (m_H_index m) (m_i10_index m)) w1 of
             (Inl e, w2) \<Rightarrow> (Inl e, w2)
           | (Inr u, w2) \<Rightarrow> (Inr (Some m), w2)))"

text \<open>
  The loop with the inner \<^verbatim>\<open>except Exception\<close>, whose own \<^verbatim>\<open>print\<close> can raise, and the two
  lines after the loop. \<open>Inl\<close> is an exception that leaves the loop.
\<close>

fun attempts_io ::
  "(log_line \<Rightarrow> exn option) \<Rightarrow> env \<Rightarrow> string \<Rightarrow> params \<Rightarrow> nat list \<Rightarrow> world
     \<Rightarrow> (exn + metrics option) \<times> world" where
  "attempts_io stdout env profile_url p [] w =
     (case print_to stdout (Failed_to_fetch profile_url) w of
        (Inl e, w') \<Rightarrow> (Inl e, w')
      | (Inr u, w') \<Rightarrow> (Inr None, w'))"
| "attempts_io stdout env profile_url p (attempt # rest) w =
     (case attempt_io stdout env profile_url p attempt w of
        (Inr (Some m), w1) \<Rightarrow> (Inr (Some m), w1)
      | (Inr None, w1) \<Rightarrow> attempts_io stdout env profile_url p rest w1
      | (Inl e, w1) \<Rightarrow>
          (case print_to stdout (Error_attempt (attempt + 1) profile_url e) w1 of
             (Inl e', w2) \<Rightarrow> (Inl e', w2)
           | (Inr u, w2) \<Rightarrow> attempts_io stdout env profile_url p rest (sleep w2)))"

definition fetch_body_io ::
  "(log_line \<Rightarrow> exn option) \<Rightarrow> env \<Rightarrow> string \<Rightarrow> nat \<Rightarrow> world
     \<Rightarrow> (exn + metrics option) \<times> world" where
  "fetch_body_io stdout env profile_url retries w =
     (if \<not> py_in ''user='' profile_url
      then
        (case print_to stdout (Invalid_Scholar_URL profile_url) w of
           (Inl e, w') \<Rightarrow> (Inl e, w')
         | (Inr u, w') \<Rightarrow> (Inr None, w'))
      else
        (case extract_user_id profile_url of
           Inl e \<Rightarrow> (Inl e, w)
         | Inr user_id \<Rightarrow>
             attempts_io stdout env profile_url (scholar_params env user_id) [0..<retries] w))"

text \<open>
  \<^verbatim>\<open>fetch_scholar_data\<close> with every \<^verbatim>\<open>print\<close> of the source as it is: the outer
  \<^verbatim>\<open>except Exception\<close> prints too, and what that \<^verbatim>\<open>print\<close> raises reaches the caller.
\<close>

definition fetch_scholar_data_io ::
  "(log_line \<Rightarrow> exn option) \<Rightarrow> env \<Rightarrow> string \<Rightarrow> nat \<Rightarrow> world
     \<Rightarrow> (exn + metrics option) \<times> world" where
  "fetch_scholar_data_io stdout env profile_url retries w =
     (case fetch_body_io stdout env profile_url retries w of
        (Inl e, w') \<Rightarrow>
          (case print_to stdout (Fatal_error e) w' of
             (Inl e', w'') \<Rightarrow> (Inl e', w'')
           | (Inr u, w'') \<Rightarrow> (Inr None, w''))
      | (Inr r, w') \<Rightarrow> (Inr r, w'))"

section \<open>The table file\<close>

text \<open>
  \<^verbatim>\<open>load_faculty_df()\<close> raises \<^verbatim>\<open>FileNotFoundError\<close> when the file is not there; a file
  that is there is taken to be a table that \<^verbatim>\<open>read_excel\<close> can read.
\<close>

definition load_faculty_df :: "world \<Rightarrow> exn + dataframe" where
  "load_faculty_df w =
     (case files w DATA_PATH of None \<Rightarrow> Inl FileNotFoundError | Some df \<Rightarrow> Inr df)"

text \<open>
  \<^verbatim>\<open>df.to_excel(path, index=False)\<close> rewrites the whole file, or raises; a write that
  raises is taken to leave the file as it was (the case of a file that is locked).
\<close>

definition save_faculty_df :: "env \<Rightarrow> dataframe \<Rightarrow> string \<Rightarrow> world \<Rightarrow> (exn + unit) \<times> world" where
  "save_faculty_df env df path w =
     (case to_excel_raises env path of
        Some e \<Rightarrow> (Inl e, w)
      | None \<Rightarrow> (Inr (), w\<lparr>files := (files w)(path \<mapsto> df)\<rparr>))"

text \<open>
  The block that each route has around its save:
  \<^verbatim>\<open>try: save_faculty_df(df, path)  except PermissionError: print(...)\<close>
\<close>

definition save_or_skip ::
  "env \<Rightarrow> dataframe \<Rightarrow> string \<Rightarrow> log_line \<Rightarrow> world \<Rightarrow> (exn + unit) \<times> world" where
  "save_or_skip env df path line w =
     (case save_faculty_df env df path w of
        (Inl e, w') \<Rightarrow> if e = PermissionError then (Inr (), print_line line w') else (Inl e, w')
      | (Inr u, w') \<Rightarrow> (Inr u, w'))"

subsection \<open>DataFrame operations\<close>

text \<open>\<^verbatim>\<open>df[mask]\<close>\<close>

definition select_rows :: "bool list \<Rightarrow> row list \<Rightarrow> row list" where
  "select_rows bs rs = map snd (filter fst (zip bs rs))"

text \<open>\<^verbatim>\<open>df.loc[mask, column] = value\<close>, the column and the value given as the update \<open>f\<close>\<close>

definition loc_set :: "dataframe \<Rightarrow> bool list \<Rightarrow> (row \<Rightarrow> row) \<Rightarrow> dataframe" where
  "loc_set df bs f = df\<lparr>rows := map (\<lambda>(b, r). if b then f r else r) (zip bs (rows df))\<rparr>"

definition empty_row :: row where
  "empty_row =
     \<lparr>Sr_No = None, Name_of_Faculty = ''nan'', Profile_URL = ''nan'', Citations = None,
      h_index = None, i10_index = None\<rparr>"

text \<open>
  \<^verbatim>\<open>df.at[idx, column] = value\<close>. The labels of the table are the positions of its rows
  (\<^verbatim>\<open>read_excel\<close> gives a range index). A label the table does not have adds a row.
\<close>

definition at_set :: "dataframe \<Rightarrow> nat \<Rightarrow> (row \<Rightarrow> row) \<Rightarrow> dataframe" where
  "at_set df idx f =
     (if idx < length (rows df) then df\<lparr>rows := (rows df)[idx := f (rows df ! idx)]\<rparr>
      else df\<lparr>rows := rows df @ [f empty_row]\<rparr>)"

text \<open>\<^verbatim>\<open>new_df["Sr.No"] = range(1, len(new_df) + 1)\<close>\<close>

definition renumber :: "dataframe \<Rightarrow> dataframe" where
  "renumber df =
     df\<lparr>rows := map (\<lambda>(n, r). r\<lparr>Sr_No := Some n\<rparr>) (zip [1 .. int (length (rows df))] (rows df))\<rparr>"

section \<open>The routes\<close>

datatype message =
    Please_select_a_faculty_name
  | Load_failed exn
  | No_faculty_found string
  | Failed_to_fetch_data
  | Invalid_admin_password
  | Name_and_URL_required
  | Please_enter_a_valid_URL
  | Please_select_a_faculty_to_delete
  | Faculty_added string
  | Faculty_deleted string

text \<open>
  The page a route renders: \<^verbatim>\<open>result_one.html\<close> with \<^verbatim>\<open>error\<close>, with \<^verbatim>\<open>data\<close>,
  \<^verbatim>\<open>faculty_name\<close> and \<^verbatim>\<open>url\<close>, or with \<^verbatim>\<open>message\<close>; \<^verbatim>\<open>result_all.html\<close> with \<^verbatim>\<open>error\<close>, or
  with \<^verbatim>\<open>updated\<close>, \<^verbatim>\<open>total\<close>, \<^verbatim>\<open>failed_list\<close> and \<^verbatim>\<open>download_ready\<close>.
\<close>

datatype response =
    Result_one_error message
  | Result_one_data metrics string string
  | Result_one_message message
  | Result_all_error message
  | Result_all nat nat "string list" bool

definition ADMIN_PASSWORD :: string where
  "ADMIN_PASSWORD = ''pratik123''"

text \<open>
  A route takes the values of its form fields (a missing field is the empty string) and
  the world; \<open>Inl\<close> is an exception that leaves the route.
\<close>

definition fetch_one :: "env \<Rightarrow> string \<Rightarrow> world \<Rightarrow> (exn + response) \<times> world" where
  "fetch_one env form_faculty_name w =
     (let faculty_name = py_strip form_faculty_name in
      if faculty_name = [] then (Inr (Result_one_error Please_select_a_faculty_name), w)
      else
        (case load_faculty_df w of
           Inl e \<Rightarrow> (Inr (Result_one_error (Load_failed e)), w)
         | Inr df \<Rightarrow>
             (let mask_eq = map (\<lambda>r. py_lower (Name_of_Faculty r) = py_lower faculty_name) (rows df);
                  matches = select_rows mask_eq (rows df)
              in case matches of
                   [] \<Rightarrow> (Inr (Result_one_error (No_faculty_found faculty_name)), w)
                 | row # _ \<Rightarrow>
                     (let url = py_strip (Profile_URL row) in
                      case fetch_scholar_data env url 2 w of
                        (Inl e, w1) \<Rightarrow> (Inl e, w1)
                      | (Inr None, w1) \<Rightarrow> (Inr (Result_one_error Failed_to_fetch_data), w1)
                      | (Inr (Some data), w1) \<Rightarrow>
                          (let df1 = loc_set df mask_eq (Citations_update (\<lambda>_. Some (m_Citations data)));
                               df2 = loc_set df1 mask_eq (h_index_update (\<lambda>_. Some (m_H_index data)));
                               df3 = loc_set df2 mask_eq (i10_index_update (\<lambda>_. Some (m_i10_index data)))
                           in case save_or_skip env df3 DATA_PATH Could_not_save w1 of
                                (Inl e, w2) \<Rightarrow> (Inl e, w2)
                              | (Inr u, w2) \<Rightarrow>
                                  (Inr (Result_one_data data faculty_name url), w2))))))"


definition delete_faculty ::
  "env \<Rightarrow> string \<Rightarrow> string \<Rightarrow> world \<Rightarrow> (exn + response) \<times> world" where
  "delete_faculty env admin_password_del delete_name w =
     (let faculty_name = py_strip delete_name in
      if admin_password_del \<noteq> ADMIN_PASSWORD
      then (Inr (Result_one_error Invalid_admin_password), w)
      else if faculty_name = []
      then (Inr (Result_one_error Please_select_a_faculty_to_delete), w)
      else
        (case load_faculty_df w of
           Inl e \<Rightarrow> (Inr (Result_one_error (Load_failed e)), w)
         | Inr df \<Rightarrow>
             (let mask_keep =
                    map (\<lambda>r. py_lower (Name_of_Faculty r) \<noteq> py_lower faculty_name) (rows df);
                  new_df = df\<lparr>rows := select_rows mask_keep (rows df)\<rparr>
              in if length (rows new_df) = length (rows df)
                 then (Inr (Result_one_error (No_faculty_found faculty_name)), w)
                 else
                   (let new_df' = (if has_Sr_No new_df then renumber new_df else new_df) in
                    case save_or_skip env new_df' DATA_PATH Could_not_save_deleting w of
                      (Inl e, w') \<Rightarrow> (Inl e, w')
                    | (Inr u, w') \<Rightarrow>
                        (Inr (Result_one_message (Faculty_deleted faculty_name)), w')))))"

text \<open>
  The loop \<^verbatim>\<open>for idx, row in df.iterrows()\<close> of \<^verbatim>\<open>update_excel\<close>, over the labelled rows
  that are still to come; \<open>df\<close> is the table as updated so far.
\<close>

fun update_rows ::
  "env \<Rightarrow> (nat \<times> row) list \<Rightarrow> dataframe \<Rightarrow> nat \<Rightarrow> string list \<Rightarrow> world
     \<Rightarrow> (exn + dataframe \<times> nat \<times> string list) \<times> world" where
  "update_rows env [] df updated_count failed_list w = (Inr (df, updated_count, failed_list), w)"
| "update_rows env ((idx, row) # rest) df updated_count failed_list w =
     (let name = Name_of_Faculty row; url = py_strip (Profile_URL row) in
      if url = [] \<or> \<not> startswith url ''http''
      then update_rows env rest df updated_count (failed_list @ [name]) w
      else
        (case fetch_scholar_data env url 2 (print_line (Updating name) w) of
           (Inl e, w1) \<Rightarrow> (Inl e, w1)
         | (Inr (Some data), w1) \<Rightarrow>
             (let df1 = at_set df idx (Citations_update (\<lambda>_. Some (m_Citations data)));
                  df2 = at_set df1 idx (h_index_update (\<lambda>_. Some (m_H_index data)));
                  df3 = at_set df2 idx (i10_index_update (\<lambda>_. Some (m_i10_index data)))
              in update_rows env rest df3 (updated_count + 1) failed_list (sleep w1))
         | (Inr None, w1) \<Rightarrow>
             update_rows env rest df updated_count (failed_list @ [name]) (sleep w1)))"

definition iterrows :: "dataframe \<Rightarrow> (nat \<times> row) list" where
  "iterrows df = zip [0..<length (rows df)] (rows df)"

definition update_excel :: "env \<Rightarrow> world \<Rightarrow> (exn + response) \<times> world" where
  "update_excel env w =
     (case load_faculty_df w of
        Inl e \<Rightarrow> (Inr (Result_all_error (Load_failed e)), w)
      | Inr df \<Rightarrow>
          (case update_rows env (iterrows df) df 0 [] w of
             (Inl e, w1) \<Rightarrow> (Inl e, w1)
           | (Inr (df', updated_count, failed_list), w1) \<Rightarrow>
               (case save_or_skip env df' UPDATED_PATH Could_not_save_updated w1 of
                  (Inl e, w2) \<Rightarrow> (Inl e, w2)
                | (Inr u, w2) \<Rightarrow>
                    (Inr (Result_all updated_count (length (rows df')) failed_list
                            (files w2 UPDATED_PATH \<noteq> None)),
                     w2))))"

section \<open>Usable window values\<close>

text \<open>
  A metric group has a usable value for a window when the window is a key of the group and
  its value is truthy (not \<^verbatim>\<open>None\<close>, not 0, not empty).
\<close>

definition usable :: "(string \<times> json) list \<Rightarrow> string \<Rightarrow> bool" where
  "usable d k = (case map_of d k of None \<Rightarrow> False | Some v \<Rightarrow> truthy v)"

section \<open>Concrete inputs\<close>

text \<open>Documents of the API, an environment for every way the outside behaves, and tables.\<close>

definition doc_jdoe :: json where
  "doc_jdoe =
     JDict [(''author'', JDict [(''name'', JStr ''J. Doe'')]),
            (''cited_by'', JDict [(''table'', JList
               [JDict [(''citations'', JDict [(''all'', JInt 120)])],
                JDict [(''h_index'', JDict [(''all'', JInt 9)])],
                JDict [(''i10_index'', JDict [(''all'', JInt 4)])]])])]"

text \<open>No \<^verbatim>\<open>author.name\<close>, and 0 citations and h-index.\<close>

definition doc_empty :: json where
  "doc_empty =
     JDict [(''author'', JDict []),
            (''cited_by'', JDict [(''table'', JList
               [JDict [(''citations'', JDict [(''all'', JInt 0)])],
                JDict [(''h_index'', JDict [(''all'', JInt 0)])],
                JDict [(''i10_index'', JDict [(''all'', JInt 0)])]])])]"

text \<open>The all-time citations are present and 0, the citations since 2020 are 5.\<close>

definition table_zero_all :: "json list" where
  "table_zero_all =
     [JDict [(''citations'', JDict [(''all'', JInt 0), (''since_2020'', JInt 5)])],
      JDict [(''h_index'', JDict [(''all'', JInt 9)])],
      JDict [(''i10_index'', JDict [(''all'', JInt 4)])]]"

definition doc_zero_all :: json where
  "doc_zero_all =
     JDict [(''author'', JDict [(''name'', JStr ''J. Doe'')]),
            (''cited_by'', JDict [(''table'', JList table_zero_all)])]"

definition env_of :: "(nat \<Rightarrow> params \<Rightarrow> outcome) \<Rightarrow> (string \<Rightarrow> exn option) \<Rightarrow> env" where
  "env_of api wr =
     \<lparr>SERPAPI_KEY = ''k'', get_dict = api, int_of_str = (\<lambda>s. None), to_excel_raises = wr\<rparr>"

text \<open>Every call answers with \<open>doc_jdoe\<close>; every write succeeds.\<close>

definition env_jdoe :: env where
  "env_jdoe = env_of (\<lambda>n p. Returns doc_jdoe) (\<lambda>path. None)"

text \<open>The first call of the run answers with \<open>doc_empty\<close>, the later ones with \<open>doc_jdoe\<close>.\<close>

definition env_empty_first :: env where
  "env_empty_first =
     env_of (\<lambda>n p. if n = 0 then Returns doc_empty else Returns doc_jdoe) (\<lambda>path. None)"

text \<open>Every call raises.\<close>

definition env_down :: env where
  "env_down = env_of (\<lambda>n p. Raises (LibraryError ''timeout'')) (\<lambda>path. None)"

definition env_zero_all :: env where
  "env_zero_all = env_of (\<lambda>n p. Returns doc_zero_all) (\<lambda>path. None)"



text \<open>The profile \<open>aaa\<close> answers with \<open>doc_jdoe\<close>, every other profile raises.\<close>

definition env_only_aaa :: env where
  "env_only_aaa =
     env_of (\<lambda>n p. if author_id p = ''aaa'' then Returns doc_jdoe
                    else Raises (LibraryError ''timeout''))
       (\<lambda>path. None)"

text \<open>A stdout that writes every line, and one that cannot encode the emoji of any line.\<close>

definition stdout_utf8 :: "log_line \<Rightarrow> exn option" where
  "stdout_utf8 l = None"

definition stdout_ascii :: "log_line \<Rightarrow> exn option" where
  "stdout_ascii l = Some UnicodeEncodeError"

definition url_aaa :: string where
  "url_aaa = ''https://scholar.google.com/citations?user=aaa&hl=en''"

definition url_bbb :: string where
  "url_bbb = ''https://scholar.google.com/citations?user=bbb&hl=en''"

definition url_no_marker :: string where
  "url_no_marker = ''https://scholar.google.com/citations?hl=en''"

definition world_of :: "dataframe \<Rightarrow> world" where
  "world_of df = \<lparr>trace = [], files = (\<lambda>path. if path = DATA_PATH then Some df else None)\<rparr>"

text \<open>Two rows whose names differ in case only, with different profiles.\<close>

definition df_two_alices :: dataframe where
  "df_two_alices =
     \<lparr>has_Sr_No = True,
      rows =
        [\<lparr>Sr_No = Some 1, Name_of_Faculty = ''Alice'', Profile_URL = url_aaa,
          Citations = None, h_index = None, i10_index = None\<rparr>,
         \<lparr>Sr_No = Some 2, Name_of_Faculty = ''Bob'', Profile_URL = url_bbb,
          Citations = Some 50, h_index = Some 5, i10_index = Some 2\<rparr>,
         \<lparr>Sr_No = Some 3, Name_of_Faculty = ''ALICE'', Profile_URL = url_bbb,
          Citations = Some 7, h_index = Some 3, i10_index = Some 1\<rparr>]\<rparr>"

text \<open>The rows A (a profile that answers), B (no URL) and C (a profile that fails).\<close>

definition df_abc :: dataframe where
  "df_abc =
     \<lparr>has_Sr_No = True,
      rows =
        [\<lparr>Sr_No = Some 1, Name_of_Faculty = ''A'', Profile_URL = url_aaa,
          Citations = None, h_index = None, i10_index = None\<rparr>,
         \<lparr>Sr_No = Some 2, Name_of_Faculty = ''B'', Profile_URL = [],
          Citations = None, h_index = None, i10_index = None\<rparr>,
         \<lparr>Sr_No = Some 3, Name_of_Faculty = ''C'', Profile_URL = url_bbb,
          Citations = Some 7, h_index = Some 3, i10_index = Some 1\<rparr>]\<rparr>"

section \<open>Basic facts\<close>

lemma and_then_Inl [simp]: "and_then (Inl e) f = Inl e"
  by (simp add: and_then_def)

lemma and_then_Inr [simp]: "and_then (Inr v) f = f v"
  by (simp add: and_then_def)

lemma upt_0_2: "[0..<2] = [0, Suc 0]"
  by (simp add: numeral_2_eq_2)

subsection \<open>The identifier of a profile\<close>

lemma split_from_nonempty: "split_from sep acc s \<noteq> []"
  by (induction sep acc s rule: split_from.induct) auto

lemma split_from_two:
  "py_in sep s \<Longrightarrow> sep \<noteq> [] \<Longrightarrow> 2 \<le> length (split_from sep acc s)"
proof (induction sep acc s rule: split_from.induct)
  case (1 sep acc)
  then show ?case by simp
next
  case (2 sep acc c cs)
  show ?case
  proof (cases "take (length sep) (c # cs) = sep")
    case True
    have "1 \<le> length (split_from sep [] (drop (length sep) (c # cs)))"
      using split_from_nonempty [of sep "[]" "drop (length sep) (c # cs)"]
      by (cases "split_from sep [] (drop (length sep) (c # cs))") auto
    with True "2.prems" show ?thesis by simp
  next
    case False
    with "2.prems" have "py_in sep cs" by simp
    with False "2.IH"(2) "2.prems" show ?thesis by simp
  qed
qed

text \<open>With the marker in the URL, neither index of \<open>extract_user_id\<close> is out of range.\<close>

lemma extract_user_id_ok:
  assumes "py_in ''user='' profile_url"
  shows "\<exists>uid. extract_user_id profile_url = Inr uid"
proof -
  have "2 \<le> length (py_split profile_url ''user='')"
    using assms split_from_two [of "''user=''" profile_url "[]"] by (simp add: py_split_def)
  then have "py_index (py_split profile_url ''user='') 1 = Inr (py_split profile_url ''user='' ! 1)"
    by (simp add: py_index_def)
  moreover have "0 < length (py_split t ''&'')" for t
    using split_from_nonempty [of "''&''" "[]" t] by (simp add: py_split_def)
  ultimately show ?thesis
    by (simp add: extract_user_id_def py_index_def)
qed

subsection \<open>The trace\<close>

lemma n_calls_print_line [simp]: "n_calls (print_line l w) = n_calls w"
  by (simp add: n_calls_def print_line_def)

lemma n_calls_sleep [simp]: "n_calls (sleep w) = n_calls w"
  by (simp add: n_calls_def sleep_def)

lemma n_calls_search [simp]: "n_calls (snd (search_get_dict env p w)) = Suc (n_calls w)"
  by (simp add: search_get_dict_def n_calls_def)

lemma trace_search [simp]: "trace (snd (search_get_dict env p w)) = trace w @ [Api_call p]"
  by (simp add: search_get_dict_def)

lemma trace_print_line [simp]: "trace (print_line l w) = trace w @ [Print l]"
  by (simp add: print_line_def)

lemma trace_sleep [simp]: "trace (sleep w) = trace w @ [Sleep]"
  by (simp add: sleep_def)

lemma files_search [simp]: "files (snd (search_get_dict env p w)) = files w"
  by (simp add: search_get_dict_def)

lemma files_print_line [simp]: "files (print_line l w) = files w"
  by (simp add: print_line_def)

lemma files_sleep [simp]: "files (sleep w) = files w"
  by (simp add: sleep_def)

subsection \<open>The loop of attempts\<close>

text \<open>One round of the loop, by what the call of this round leads to.\<close>

lemma attempts_Cons:
  "attempts env profile_url p (attempt # rest) w =
     (case attempt_outcome env p (n_calls w) of
        Inl e \<Rightarrow>
          attempts env profile_url p rest
            (sleep (print_line (Error_attempt (attempt + 1) profile_url e)
               (snd (search_get_dict env p w))))
      | Inr Retry \<Rightarrow>
          attempts env profile_url p rest
            (sleep (print_line (Empty_data (attempt + 1) profile_url)
               (snd (search_get_dict env p w))))
      | Inr (Got m) \<Rightarrow>
          (Some m,
           print_line (Fetched (m_Name m) (m_Citations m) (m_H_index m) (m_i10_index m))
             (snd (search_get_dict env p w))))"
  by (simp add: attempt_outcome_def search_get_dict_def
      split: outcome.splits sum.splits attempt_result.splits)

lemma attempts_calls:
  "n_calls (snd (attempts env profile_url p as w)) \<le> n_calls w + length as"
proof (induction as arbitrary: w)
  case Nil
  then show ?case by simp
next
  case (Cons a as)
  show ?case
  proof (cases "attempt_outcome env p (n_calls w)")
    case (Inl e)
    then show ?thesis
      using Cons.IH [of "sleep (print_line (Error_attempt (a + 1) profile_url e)
               (snd (search_get_dict env p w)))"]
      by (simp add: attempts_Cons del: attempts.simps)
  next
    case (Inr r)
    then show ?thesis
      using Cons.IH [of "sleep (print_line (Empty_data (a + 1) profile_url)
               (snd (search_get_dict env p w)))"]
      by (cases r) (simp_all add: attempts_Cons del: attempts.simps)
  qed
qed

text \<open>A round of the loop starts with a call; the trace only grows.\<close>

lemma attempts_trace:
  "\<exists>rest. trace (snd (attempts env profile_url p as w)) = trace w @ rest"
proof (induction as arbitrary: w)
  case Nil
  then show ?case by simp
next
  case (Cons a as)
  show ?case
  proof (cases "attempt_outcome env p (n_calls w)")
    case (Inl e)
    then show ?thesis
      using Cons.IH [of "sleep (print_line (Error_attempt (a + 1) profile_url e)
               (snd (search_get_dict env p w)))"]
      by (auto simp add: attempts_Cons simp del: attempts.simps)
  next
    case (Inr r)
    then show ?thesis
      using Cons.IH [of "sleep (print_line (Empty_data (a + 1) profile_url)
               (snd (search_get_dict env p w)))"]
      by (cases r) (auto simp add: attempts_Cons simp del: attempts.simps)
  qed
qed

lemma attempts_trace_call:
  "\<exists>rest. trace (snd (attempts env profile_url p (a # as) w)) = trace w @ Api_call p # rest"
proof (cases "attempt_outcome env p (n_calls w)")
  case (Inl e)
  then show ?thesis
    using attempts_trace [of env profile_url p as
        "sleep (print_line (Error_attempt (a + 1) profile_url e) (snd (search_get_dict env p w)))"]
    by (auto simp add: attempts_Cons simp del: attempts.simps)
next
  case (Inr r)
  then show ?thesis
    using attempts_trace [of env profile_url p as
        "sleep (print_line (Empty_data (a + 1) profile_url) (snd (search_get_dict env p w)))"]
    by (cases r) (auto simp add: attempts_Cons simp del: attempts.simps)
qed

lemma attempts_files [simp]: "files (snd (attempts env profile_url p as w)) = files w"
proof (induction as arbitrary: w)
  case Nil
  then show ?case by simp
next
  case (Cons a as)
  show ?case
  proof (cases "attempt_outcome env p (n_calls w)")
    case (Inl e)
    then show ?thesis
      using Cons.IH by (simp add: attempts_Cons del: attempts.simps)
  next
    case (Inr r)
    then show ?thesis
      using Cons.IH by (cases r) (simp_all add: attempts_Cons del: attempts.simps)
  qed
qed

subsection \<open>fetch\_scholar\_data\<close>

text \<open>With the marker in the URL the function is the loop of attempts.\<close>

lemma fetch_with_marker:
  assumes "py_in ''user='' profile_url" and "extract_user_id profile_url = Inr uid"
  shows "fetch_scholar_data env profile_url retries w =
     (Inr (fst (attempts env profile_url (scholar_params env uid) [0..<retries] w)),
      snd (attempts env profile_url (scholar_params env uid) [0..<retries] w))"
  using assms by (simp add: fetch_scholar_data_def fetch_body_def split: prod.splits)

lemma fetch_files [simp]: "files (snd (fetch_scholar_data env profile_url retries w)) = files w"
proof (cases "py_in ''user='' profile_url")
  case True
  then obtain uid where "extract_user_id profile_url = Inr uid"
    using extract_user_id_ok by blast
  with True show ?thesis by (simp add: fetch_with_marker)
next
  case False
  then show ?thesis by (simp add: fetch_scholar_data_def fetch_body_def)
qed

lemma fetch_Inr: "\<exists>r. fst (fetch_scholar_data env profile_url retries w) = Inr r"
  by (simp add: fetch_scholar_data_def split: prod.splits sum.splits)

lemma attempts_not_Got:
  assumes "\<forall>m. attempt_outcome env p (n_calls w) \<noteq> Inr (Got m)"
  shows "\<exists>w'. attempts env profile_url p (a # as) w = attempts env profile_url p as w'
           \<and> n_calls w' = Suc (n_calls w)"
proof (cases "attempt_outcome env p (n_calls w)")
  case (Inl e)
  let ?w' = "sleep (print_line (Error_attempt (a + 1) profile_url e)
               (snd (search_get_dict env p w)))"
  from Inl have "attempts env profile_url p (a # as) w = attempts env profile_url p as ?w'
      \<and> n_calls ?w' = Suc (n_calls w)"
    by (simp add: attempts_Cons del: attempts.simps)
  then show ?thesis by blast
next
  case (Inr r)
  let ?w' = "sleep (print_line (Empty_data (a + 1) profile_url)
               (snd (search_get_dict env p w)))"
  from Inr assms have "r = Retry"
    by (cases r) simp_all
  with Inr have "attempts env profile_url p (a # as) w = attempts env profile_url p as ?w'
      \<and> n_calls ?w' = Suc (n_calls w)"
    by (simp add: attempts_Cons del: attempts.simps)
  then show ?thesis by blast
qed

section \<open>The claims about fetch\_scholar\_data\<close>

text \<open>
  C6. For every profile reference that does not contain the marker \<^verbatim>\<open>user=\<close>, whatever
  the number of retries and whatever the API would answer, \<open>fetch_scholar_data\<close> returns
  \<open>None\<close> at once: the only thing it does is print the line about the invalid URL, so the
  trace gains no API call and no sleep.
\<close>

theorem fetch_without_marker:
  "\<not> py_in ''user='' profile_url \<Longrightarrow>
     fetch_scholar_data env profile_url retries w =
       (Inr None, w\<lparr>trace := trace w @ [Print (Invalid_Scholar_URL profile_url)]\<rparr>)"
  by (simp add: fetch_scholar_data_def fetch_body_def print_line_def)

theorem fetch_without_marker_witness:
  "\<not> py_in ''user='' url_no_marker \<and>
   fst (fetch_scholar_data env_jdoe url_no_marker 2 (world_of df_abc)) = Inr None \<and>
   trace (snd (fetch_scholar_data env_jdoe url_no_marker 2 (world_of df_abc))) =
     [Print (Invalid_Scholar_URL url_no_marker)]"
proof -
  have h: "\<not> py_in ''user='' url_no_marker"
    by (simp add: url_no_marker_def)
  show ?thesis
    using h fetch_without_marker [OF h, of env_jdoe 2 "world_of df_abc"]
    by (simp add: world_of_def)
qed

text \<open>
  C3. With the default of two retries \<open>fetch_scholar_data\<close> calls the API at most twice.
  When the first call returns a document whose normalized name is the placeholder
  \<^verbatim>\<open>"Unknown"\<close> and whose citations and h-index are both 0, the attempt counts as empty: the
  function prints, sleeps for the pacing delay and only then calls the API a second time.
  When neither of the two attempts gives a non-empty result, it returns \<open>None\<close>.
\<close>

theorem fetch_retry_policy:
  "n_calls (snd (fetch_scholar_data env profile_url 2 w)) \<le> n_calls w + 2 \<and>
   (py_in ''user='' profile_url \<and> extract_user_id profile_url = Inr uid \<and>
    get_dict env (n_calls w) (scholar_params env uid) = Returns results \<and>
    normalize results = Inr (JStr ''Unknown'', c, h, i) \<and> py_eq_0 c \<and> py_eq_0 h \<longrightarrow>
      (\<exists>rest. trace (snd (fetch_scholar_data env profile_url 2 w)) =
         trace w @ [Api_call (scholar_params env uid), Print (Empty_data 1 profile_url), Sleep,
                    Api_call (scholar_params env uid)] @ rest)) \<and>
   (py_in ''user='' profile_url \<and> extract_user_id profile_url = Inr uid \<and>
    (\<forall>m. attempt_outcome env (scholar_params env uid) (n_calls w) \<noteq> Inr (Got m)) \<and>
    (\<forall>m. attempt_outcome env (scholar_params env uid) (Suc (n_calls w)) \<noteq> Inr (Got m)) \<longrightarrow>
      fst (fetch_scholar_data env profile_url 2 w) = Inr None)"
proof (intro conjI impI)
  show "n_calls (snd (fetch_scholar_data env profile_url 2 w)) \<le> n_calls w + 2"
  proof (cases "py_in ''user='' profile_url")
    case True
    then obtain u where "extract_user_id profile_url = Inr u"
      using extract_user_id_ok by blast
    with True show ?thesis
      using attempts_calls [of env profile_url "scholar_params env u" "[0..<2]" w]
      by (simp add: fetch_with_marker)
  next
    case False
    then show ?thesis by (simp add: fetch_scholar_data_def fetch_body_def)
  qed
next
  let ?p = "scholar_params env uid"
  assume a: "py_in ''user='' profile_url \<and> extract_user_id profile_url = Inr uid \<and>
    get_dict env (n_calls w) ?p = Returns results \<and>
    normalize results = Inr (JStr ''Unknown'', c, h, i) \<and> py_eq_0 c \<and> py_eq_0 h"
  let ?w1 = "sleep (print_line (Empty_data 1 profile_url) (snd (search_get_dict env ?p w)))"
  from a have "attempt_outcome env ?p (n_calls w) = Inr Retry"
    by (simp add: attempt_outcome_def read_results_def)
  then have "attempts env profile_url ?p [0, Suc 0] w = attempts env profile_url ?p [Suc 0] ?w1"
    by (simp add: attempts_Cons del: attempts.simps)
  moreover obtain rest where
    "trace (snd (attempts env profile_url ?p [Suc 0] ?w1)) = trace ?w1 @ Api_call ?p # rest"
    using attempts_trace_call [of env profile_url ?p "Suc 0" "[]" ?w1] by blast
  ultimately have "trace (snd (fetch_scholar_data env profile_url 2 w)) =
      trace w @ [Api_call ?p, Print (Empty_data 1 profile_url), Sleep, Api_call ?p] @ rest"
    using a by (simp add: fetch_with_marker upt_0_2)
  then show "\<exists>rest. trace (snd (fetch_scholar_data env profile_url 2 w)) =
      trace w @ [Api_call ?p, Print (Empty_data 1 profile_url), Sleep, Api_call ?p] @ rest"
    by blast
next
  let ?p = "scholar_params env uid"
  assume a: "py_in ''user='' profile_url \<and> extract_user_id profile_url = Inr uid \<and>
    (\<forall>m. attempt_outcome env ?p (n_calls w) \<noteq> Inr (Got m)) \<and>
    (\<forall>m. attempt_outcome env ?p (Suc (n_calls w)) \<noteq> Inr (Got m))"
  then obtain w1 where w1:
    "attempts env profile_url ?p [0, Suc 0] w = attempts env profile_url ?p [Suc 0] w1"
    "n_calls w1 = Suc (n_calls w)"
    using attempts_not_Got [of env ?p w profile_url 0 "[Suc 0]"] by blast
  with a obtain w2 where
    "attempts env profile_url ?p [Suc 0] w1 = attempts env profile_url ?p [] w2"
    using attempts_not_Got [of env ?p w1 profile_url "Suc 0" "[]"] by auto
  with w1 a show "fst (fetch_scholar_data env profile_url 2 w) = Inr None"
    by (simp add: fetch_with_marker upt_0_2)
qed

theorem fetch_retry_policy_witness:
  "py_in ''user='' url_aaa \<and> extract_user_id url_aaa = Inr ''aaa'' \<and>
   get_dict env_empty_first (n_calls (world_of df_abc)) (scholar_params env_empty_first ''aaa'')
     = Returns doc_empty \<and>
   normalize doc_empty = Inr (JStr ''Unknown'', JInt 0, JInt 0, JInt 0) \<and>
   (\<exists>rest. trace (snd (fetch_scholar_data env_empty_first url_aaa 2 (world_of df_abc))) =
      trace (world_of df_abc) @
        [Api_call (scholar_params env_empty_first ''aaa''), Print (Empty_data 1 url_aaa), Sleep,
         Api_call (scholar_params env_empty_first ''aaa'')] @ rest) \<and>
   (\<forall>m. attempt_outcome env_down (scholar_params env_down ''aaa'') (n_calls (world_of df_abc))
      \<noteq> Inr (Got m)) \<and>
   (\<forall>m. attempt_outcome env_down (scholar_params env_down ''aaa'')
      (Suc (n_calls (world_of df_abc))) \<noteq> Inr (Got m)) \<and>
   fst (fetch_scholar_data env_down url_aaa 2 (world_of df_abc)) = Inr None \<and>
   n_calls (snd (fetch_scholar_data env_down url_aaa 2 (world_of df_abc))) \<le> 2"
proof -
  have h1: "py_in ''user='' url_aaa"
    by (simp add: url_aaa_def)
  have h2: "extract_user_id url_aaa = Inr ''aaa''"
    by (simp add: url_aaa_def extract_user_id_def py_split_def py_index_def)
  have h3: "get_dict env_empty_first (n_calls (world_of df_abc))
      (scholar_params env_empty_first ''aaa'') = Returns doc_empty"
    by (simp add: env_empty_first_def env_of_def n_calls_def world_of_def)
  have h4: "normalize doc_empty = Inr (JStr ''Unknown'', JInt 0, JInt 0, JInt 0)"
    by (simp add: doc_empty_def normalize_def metric_group_def window_value_def py_or_def
        py_index_def)
  have h5: "\<forall>m. attempt_outcome env_down (scholar_params env_down ''aaa'') k \<noteq> Inr (Got m)" for k
    by (simp add: attempt_outcome_def env_down_def env_of_def)
  have n0: "n_calls (world_of df_abc) = 0"
    by (simp add: n_calls_def world_of_def)
  note t1 = fetch_retry_policy [of env_empty_first url_aaa "world_of df_abc" "''aaa''"
      doc_empty "JInt 0" "JInt 0" "JInt 0"]
  note t2 = fetch_retry_policy [of env_down url_aaa "world_of df_abc" "''aaa''"]
  from t1 h1 h2 h3 h4 have c1:
    "\<exists>rest. trace (snd (fetch_scholar_data env_empty_first url_aaa 2 (world_of df_abc))) =
      trace (world_of df_abc) @
        [Api_call (scholar_params env_empty_first ''aaa''), Print (Empty_data 1 url_aaa), Sleep,
         Api_call (scholar_params env_empty_first ''aaa'')] @ rest"
    by simp
  from t2 h1 h2 h5 have c2: "fst (fetch_scholar_data env_down url_aaa 2 (world_of df_abc)) = Inr None"
    by blast
  from t2 [THEN conjunct1] n0 have c3:
    "n_calls (snd (fetch_scholar_data env_down url_aaa 2 (world_of df_abc))) \<le> 2"
    by simp
  from h1 h2 h3 h4 h5 c1 c2 c3 show ?thesis by blast
qed

text \<open>
  C4. When the profile reference carries the marker and the first call of the API returns
  a document whose \<^verbatim>\<open>author.name\<close> is \<^verbatim>\<open>"J. Doe"\<close> and whose \<^verbatim>\<open>cited_by.table\<close> is the list of
  the three groups \<^verbatim>\<open>{citations: {all: 120}}\<close>, \<^verbatim>\<open>{h_index: {all: 9}}\<close> and
  \<^verbatim>\<open>{i10_index: {all: 4}}\<close>, \<open>fetch_scholar_data\<close> returns the record with the name
  \<^verbatim>\<open>"J. Doe"\<close>, 120 citations, h-index 9 and i10-index 4.
\<close>

theorem fetch_jdoe:
  assumes "py_in ''user='' profile_url"
    and "extract_user_id profile_url = Inr uid"
    and "get_dict env (n_calls w) (scholar_params env uid) = Returns (JDict kvs)"
    and "map_of kvs ''author'' = Some (JDict author)"
    and "map_of author ''name'' = Some (JStr ''J. Doe'')"
    and "map_of kvs ''cited_by'' = Some (JDict cited_by)"
    and "map_of cited_by ''table'' = Some (JList
           [JDict [(''citations'', JDict [(''all'', JInt 120)])],
            JDict [(''h_index'', JDict [(''all'', JInt 9)])],
            JDict [(''i10_index'', JDict [(''all'', JInt 4)])]])"
  shows "fst (fetch_scholar_data env profile_url 2 w) =
     Inr (Some \<lparr>m_Name = JStr ''J. Doe'', m_Citations = 120, m_H_index = 9, m_i10_index = 4\<rparr>)"
proof -
  have "normalize (JDict kvs) = Inr (JStr ''J. Doe'', JInt 120, JInt 9, JInt 4)"
    using assms(4-7)
    by (simp add: normalize_def metric_group_def window_value_def py_or_def py_index_def)
  then have "attempt_outcome env (scholar_params env uid) (n_calls w) =
      Inr (Got \<lparr>m_Name = JStr ''J. Doe'', m_Citations = 120, m_H_index = 9, m_i10_index = 4\<rparr>)"
    using assms(3) by (simp add: attempt_outcome_def read_results_def py_or_def)
  then show ?thesis
    using assms(1,2) by (simp add: fetch_with_marker upt_0_2 attempts_Cons del: attempts.simps)
qed

theorem fetch_jdoe_witness:
  "py_in ''user='' url_aaa \<and> extract_user_id url_aaa = Inr ''aaa'' \<and>
   get_dict env_jdoe (n_calls (world_of df_abc)) (scholar_params env_jdoe ''aaa'') = Returns doc_jdoe \<and>
   fst (fetch_scholar_data env_jdoe url_aaa 2 (world_of df_abc)) =
     Inr (Some \<lparr>m_Name = JStr ''J. Doe'', m_Citations = 120, m_H_index = 9, m_i10_index = 4\<rparr>)"
proof -
  have h1: "py_in ''user='' url_aaa"
    by (simp add: url_aaa_def)
  have h2: "extract_user_id url_aaa = Inr ''aaa''"
    by (simp add: url_aaa_def extract_user_id_def py_split_def py_index_def)
  have h3: "get_dict env_jdoe (n_calls (world_of df_abc)) (scholar_params env_jdoe ''aaa'')
      = Returns doc_jdoe"
    by (simp add: env_jdoe_def env_of_def)
  show ?thesis
    using h1 h2 h3
      fetch_jdoe [OF h1 h2 h3 [unfolded doc_jdoe_def], of "[(''name'', JStr ''J. Doe'')]"]
    by simp
qed

subsection \<open>A stdout that can refuse a line\<close>

lemma print_to_written: "stdout l = None \<Longrightarrow> print_to stdout l w = (Inr (), print_line l w)"
  by (simp add: print_to_def)

lemma print_to_refused: "stdout l = Some e \<Longrightarrow> print_to stdout l w = (Inl e, w)"
  by (simp add: print_to_def)

text \<open>
  On a stdout that writes every line, \<open>fetch_scholar_data_io\<close> is \<open>fetch_scholar_data\<close>: the
  latter is the function under the assumption that no \<^verbatim>\<open>print\<close> raises.
\<close>

lemma attempt_io_written:
  "attempt_io (\<lambda>l. None) env profile_url p a w =
     (case attempt_outcome env p (n_calls w) of
        Inl e \<Rightarrow> (Inl e, snd (search_get_dict env p w))
      | Inr Retry \<Rightarrow>
          (Inr None,
           sleep (print_line (Empty_data (a + 1) profile_url) (snd (search_get_dict env p w))))
      | Inr (Got m) \<Rightarrow>
          (Inr (Some m),
           print_line (Fetched (m_Name m) (m_Citations m) (m_H_index m) (m_i10_index m))
             (snd (search_get_dict env p w))))"
  by (simp add: attempt_io_def attempt_outcome_def search_get_dict_def print_to_def
      split: outcome.splits sum.splits attempt_result.splits)

lemma attempts_io_written:
  "attempts_io (\<lambda>l. None) env profile_url p as w =
     (Inr (fst (attempts env profile_url p as w)), snd (attempts env profile_url p as w))"
proof (induction as arbitrary: w)
  case Nil
  then show ?case by (simp add: print_to_def)
next
  case (Cons a as)
  show ?case
  proof (cases "attempt_outcome env p (n_calls w)")
    case (Inl e)
    then show ?thesis
      by (simp add: attempt_io_written attempts_Cons Cons.IH print_to_def del: attempts.simps)
  next
    case (Inr r)
    then show ?thesis
      by (cases r) (simp_all add: attempt_io_written attempts_Cons Cons.IH del: attempts.simps)
  qed
qed

lemma fetch_io_written:
  "fetch_scholar_data_io (\<lambda>l. None) env profile_url retries w =
     fetch_scholar_data env profile_url retries w"
proof (cases "py_in ''user='' profile_url")
  case True
  then obtain uid where "extract_user_id profile_url = Inr uid"
    using extract_user_id_ok by blast
  with True show ?thesis
    by (simp add: fetch_scholar_data_io_def fetch_body_io_def fetch_with_marker
        attempts_io_written)
next
  case False
  then show ?thesis
    by (simp add: fetch_scholar_data_io_def fetch_body_io_def fetch_scholar_data_def
        fetch_body_def print_to_def)
qed

text \<open>On such a stdout no exception reaches the caller.\<close>

lemma fetch_io_written_returns:
  assumes "\<forall>l. stdout l = None"
  shows "\<exists>r. fst (fetch_scholar_data_io stdout env profile_url retries w) = Inr r"
proof -
  have "stdout = (\<lambda>l. None)"
    using assms by (simp add: fun_eq_iff)
  then show ?thesis
    using fetch_Inr [of env profile_url retries w] by (simp add: fetch_io_written)
qed

text \<open>
  On a stdout that refuses every line, every path through the function ends in a
  \<^verbatim>\<open>print\<close> that raises inside the outer handler.
\<close>

lemma attempt_io_refused:
  assumes "\<forall>l. stdout l \<noteq> None"
  shows "\<exists>e w'. attempt_io stdout env profile_url p attempt w = (Inl e, w')"
proof -
  have refused: "\<exists>e. stdout l = Some e" for l
    using assms [rule_format, of l] by auto
  show ?thesis
  proof (cases "attempt_outcome env p (n_calls w)")
    case (Inl e)
    then show ?thesis
      by (simp add: attempt_io_def attempt_outcome_def search_get_dict_def split: outcome.splits)
  next
    case (Inr r)
    show ?thesis
    proof (cases r)
      case Retry
      obtain e1 where "stdout (Empty_data (attempt + 1) profile_url) = Some e1"
        using refused by blast
      with Inr Retry show ?thesis
        by (simp add: attempt_io_def attempt_outcome_def search_get_dict_def print_to_refused
            split: outcome.splits)
    next
      case (Got m)
      obtain e2 where
        "stdout (Fetched (m_Name m) (m_Citations m) (m_H_index m) (m_i10_index m)) = Some e2"
        using refused by blast
      with Inr Got show ?thesis
        by (simp add: attempt_io_def attempt_outcome_def search_get_dict_def print_to_refused
            split: outcome.splits)
    qed
  qed
qed

lemma attempts_io_refused:
  assumes "\<forall>l. stdout l \<noteq> None"
  shows "\<exists>e w'. attempts_io stdout env profile_url p as w = (Inl e, w')"
proof -
  have refused: "\<exists>e. stdout l = Some e" for l
    using assms [rule_format, of l] by auto
  show ?thesis
  proof (cases as)
    case Nil
    obtain e where "stdout (Failed_to_fetch profile_url) = Some e"
      using refused by blast
    with Nil show ?thesis by (simp add: print_to_refused)
  next
    case (Cons a rest)
    obtain e w1 where a: "attempt_io stdout env profile_url p a w = (Inl e, w1)"
      using attempt_io_refused assms by blast
    obtain e' where "stdout (Error_attempt (a + 1) profile_url e) = Some e'"
      using refused by blast
    with Cons a show ?thesis by (simp add: print_to_refused)
  qed
qed

lemma fetch_io_refused:
  assumes "\<forall>l. stdout l \<noteq> None"
  shows "\<exists>e. fst (fetch_scholar_data_io stdout env profile_url retries w) = Inl e"
proof -
  have refused: "\<exists>e. stdout l = Some e" for l
    using assms [rule_format, of l] by auto
  have body: "\<exists>e w'. fetch_body_io stdout env profile_url retries w = (Inl e, w')"
  proof (cases "py_in ''user='' profile_url")
    case True
    then obtain uid where "extract_user_id profile_url = Inr uid"
      using extract_user_id_ok by blast
    with True show ?thesis
      using attempts_io_refused [OF assms, of env profile_url "scholar_params env uid"
          "[0..<retries]" w]
      by (simp add: fetch_body_io_def)
  next
    case False
    obtain e where "stdout (Invalid_Scholar_URL profile_url) = Some e"
      using refused by blast
    with False show ?thesis by (simp add: fetch_body_io_def print_to_refused)
  qed
  then obtain e w' where b: "fetch_body_io stdout env profile_url retries w = (Inl e, w')"
    by blast
  obtain e' where "stdout (Fatal_error e) = Some e'"
    using refused by blast
  with b show ?thesis by (simp add: fetch_scholar_data_io_def print_to_refused)
qed

text \<open>
  C9. The claim is that \<^verbatim>\<open>fetch_scholar_data\<close> lets no exception out, whatever the string and
  whatever the API does. On \<open>stdout_ascii\<close>, a stdout that cannot encode the emoji of the
  log lines, it does: for a URL without the marker, for a profile whose every call raises,
  and for a profile that answers, the \<^verbatim>\<open>print\<close> of the outer handler raises
  \<^verbatim>\<open>UnicodeEncodeError\<close>, and this exception reaches the caller. On \<open>stdout_utf8\<close> the same
  failing profile gives \<open>None\<close>.
\<close>

theorem fetch_raises_on_ascii_stdout:
  "fst (fetch_scholar_data_io stdout_ascii env_jdoe url_no_marker 2 (world_of df_abc)) =
     Inl UnicodeEncodeError \<and>
   fst (fetch_scholar_data_io stdout_ascii env_down url_aaa 2 (world_of df_abc)) =
     Inl UnicodeEncodeError \<and>
   fst (fetch_scholar_data_io stdout_ascii env_jdoe url_aaa 2 (world_of df_abc)) =
     Inl UnicodeEncodeError \<and>
   fst (fetch_scholar_data_io stdout_utf8 env_down url_aaa 2 (world_of df_abc)) = Inr None"
  by code_simp

section \<open>Saving the table\<close>

lemma save_or_skip_ok:
  "to_excel_raises env path = None \<Longrightarrow>
     save_or_skip env df path line w = (Inr (), w\<lparr>files := (files w)(path \<mapsto> df)\<rparr>)"
  by (simp add: save_or_skip_def save_faculty_df_def)


lemma save_or_skip_other:
  "to_excel_raises env path = Some e \<Longrightarrow> e \<noteq> PermissionError \<Longrightarrow>
     save_or_skip env df path line w = (Inl e, w)"
  by (simp add: save_or_skip_def save_faculty_df_def)

lemma load_faculty_df_Some: "files w DATA_PATH = Some df \<Longrightarrow> load_faculty_df w = Inr df"
  by (simp add: load_faculty_df_def)

lemma paths_differ: "DATA_PATH \<noteq> UPDATED_PATH"
  by (simp add: DATA_PATH_def UPDATED_PATH_def)

section \<open>Rows selected by a mask\<close>

lemma select_rows_filter: "select_rows (map P rs) rs = filter P rs"
  by (induction rs) (simp_all add: select_rows_def)

lemma map_zip_fst:
  "length ns = length rs \<Longrightarrow> map (\<lambda>(n, r). f n) (zip ns rs) = map f ns"
  by (induction ns rs rule: list_induct2) simp_all

lemma map_zip_snd:
  "length ns = length rs \<Longrightarrow> map (\<lambda>(n, r). g r) (zip ns rs) = map g rs"
  by (induction ns rs rule: list_induct2) simp_all

lemma rows_renumber_length [simp]: "length (rows (renumber df)) = length (rows df)"
  by (simp add: renumber_def)

lemma Sr_No_renumber:
  "map Sr_No (rows (renumber df)) = map Some [1 .. int (length (rows df))]"
proof -
  have "map Sr_No (rows (renumber df)) =
      map (\<lambda>(n, r). Some n) (zip [1 .. int (length (rows df))] (rows df))"
    by (simp add: renumber_def case_prod_beta)
  then show ?thesis
    by (simp add: map_zip_fst)
qed

text \<open>Renumbering changes the serial numbers only.\<close>

lemma renumber_other_columns:
  "map (Sr_No_update (\<lambda>_. None)) (rows (renumber df)) = map (Sr_No_update (\<lambda>_. None)) (rows df)"
proof -
  have "map (Sr_No_update (\<lambda>_. None)) (rows (renumber df)) =
      map (\<lambda>(n, r). Sr_No_update (\<lambda>_. None) r) (zip [1 .. int (length (rows df))] (rows df))"
    by (simp add: renumber_def case_prod_beta)
  then show ?thesis
    by (simp add: map_zip_snd)
qed

section \<open>delete\_faculty\<close>

text \<open>
  What a deletion that finds a row and can write the file does: it answers with the
  message of success and leaves in the file the rows whose name is different, renumbered
  when the table has the column \<^verbatim>\<open>Sr.No\<close>.
\<close>

lemma delete_faculty_saved:
  assumes "admin_password_del = ADMIN_PASSWORD"
    and "py_strip delete_name \<noteq> []"
    and "files w DATA_PATH = Some df"
    and "r \<in> set (rows df)"
    and "py_lower (Name_of_Faculty r) = py_lower (py_strip delete_name)"
    and "to_excel_raises env DATA_PATH = None"
    and "kept = df\<lparr>rows :=
           filter (\<lambda>r. py_lower (Name_of_Faculty r) \<noteq> py_lower (py_strip delete_name)) (rows df)\<rparr>"
  shows "delete_faculty env admin_password_del delete_name w =
     (Inr (Result_one_message (Faculty_deleted (py_strip delete_name))),
      w\<lparr>files := (files w)(DATA_PATH \<mapsto> (if has_Sr_No df then renumber kept else kept))\<rparr>)"
proof -
  have "length (rows kept) < length (rows df)"
    using assms(4,5,7) by (simp add: length_filter_less)
  then show ?thesis
    using assms(1,2,3,6,7)
    by (simp add: delete_faculty_def load_faculty_df_Some select_rows_filter save_or_skip_ok
        Let_def)
qed

text \<open>
  C7. For every table with the column of serial numbers and every name whose deletion
  removes at least one row, the table that \<open>delete_faculty\<close> leaves in the file has the
  serial numbers 1, 2, ..., N in this order, N being the number of the rows that remain
  (none when N = 0).
\<close>

theorem delete_renumbers:
  assumes "admin_password_del = ADMIN_PASSWORD"
    and "py_strip delete_name \<noteq> []"
    and "files w DATA_PATH = Some df"
    and "has_Sr_No df"
    and "r \<in> set (rows df)"
    and "py_lower (Name_of_Faculty r) = py_lower (py_strip delete_name)"
    and "to_excel_raises env DATA_PATH = None"
  shows "\<exists>new_df. files (snd (delete_faculty env admin_password_del delete_name w)) DATA_PATH
             = Some new_df
           \<and> length (rows new_df) < length (rows df)
           \<and> map Sr_No (rows new_df) = map Some [1 .. int (length (rows new_df))]"
proof -
  define kept where "kept = df\<lparr>rows :=
    filter (\<lambda>r. py_lower (Name_of_Faculty r) \<noteq> py_lower (py_strip delete_name)) (rows df)\<rparr>"
  have "files (snd (delete_faculty env admin_password_del delete_name w)) DATA_PATH
      = Some (renumber kept)"
    using delete_faculty_saved [OF assms(1,2,3,5,6,7) kept_def] assms(4) by simp
  moreover have "length (rows (renumber kept)) < length (rows df)"
    using assms(5,6) by (simp add: kept_def length_filter_less)
  moreover have "map Sr_No (rows (renumber kept)) =
      map Some [1 .. int (length (rows (renumber kept)))]"
    by (simp add: Sr_No_renumber)
  ultimately show ?thesis by blast
qed

theorem delete_renumbers_witness:
  "py_strip ''alice '' \<noteq> [] \<and>
   files (world_of df_two_alices) DATA_PATH = Some df_two_alices \<and>
   has_Sr_No df_two_alices \<and>
   rows df_two_alices ! 2 \<in> set (rows df_two_alices) \<and>
   py_lower (Name_of_Faculty (rows df_two_alices ! 2)) = py_lower (py_strip ''alice '') \<and>
   to_excel_raises env_jdoe DATA_PATH = None \<and>
   (\<exists>new_df. files (snd (delete_faculty env_jdoe ADMIN_PASSWORD ''alice ''
                 (world_of df_two_alices))) DATA_PATH = Some new_df
      \<and> length (rows new_df) < length (rows df_two_alices)
      \<and> map Sr_No (rows new_df) = map Some [1 .. int (length (rows new_df))])"
proof -
  have h2: "py_strip ''alice '' \<noteq> []"
    by code_simp
  have h3: "files (world_of df_two_alices) DATA_PATH = Some df_two_alices"
    by (simp add: world_of_def)
  have h4: "has_Sr_No df_two_alices"
    by (simp add: df_two_alices_def)
  have h5: "rows df_two_alices ! 2 \<in> set (rows df_two_alices)"
    by (simp add: df_two_alices_def)
  have h6: "py_lower (Name_of_Faculty (rows df_two_alices ! 2)) = py_lower (py_strip ''alice '')"
    by code_simp
  have h7: "to_excel_raises env_jdoe DATA_PATH = None"
    by (simp add: env_jdoe_def env_of_def)
  show ?thesis
    using h2 h3 h4 h5 h6 h7 delete_renumbers [OF refl h2 h3 h4 h5 h6 h7]
    by blast
qed

text \<open>
  C10. For every table in which rows match the requested name without regard to case
  (two or more, or one), one call of \<open>delete_faculty\<close> removes all of them: no row of the
  table it leaves in the file matches the name, and apart from the serial numbers this
  table is the list of the rows that do not match, in their order.
\<close>

theorem delete_removes_every_match:
  assumes "admin_password_del = ADMIN_PASSWORD"
    and "py_strip delete_name \<noteq> []"
    and "files w DATA_PATH = Some df"
    and "r \<in> set (rows df)"
    and "py_lower (Name_of_Faculty r) = py_lower (py_strip delete_name)"
    and "to_excel_raises env DATA_PATH = None"
  shows "\<exists>new_df. files (snd (delete_faculty env admin_password_del delete_name w)) DATA_PATH
             = Some new_df
           \<and> filter (\<lambda>r. py_lower (Name_of_Faculty r) = py_lower (py_strip delete_name))
                (rows new_df) = []
           \<and> map (Sr_No_update (\<lambda>_. None)) (rows new_df) =
              map (Sr_No_update (\<lambda>_. None))
                (filter (\<lambda>r. py_lower (Name_of_Faculty r) \<noteq> py_lower (py_strip delete_name))
                   (rows df))"
proof -
  let ?differs = "\<lambda>r. py_lower (Name_of_Faculty r) \<noteq> py_lower (py_strip delete_name)"
  define kept where "kept = df\<lparr>rows := filter ?differs (rows df)\<rparr>"
  define new_df where "new_df = (if has_Sr_No df then renumber kept else kept)"
  have saved: "files (snd (delete_faculty env admin_password_del delete_name w)) DATA_PATH
      = Some new_df"
    using delete_faculty_saved [OF assms kept_def] by (simp add: new_df_def)
  have other: "map (Sr_No_update (\<lambda>_. None)) (rows new_df) =
      map (Sr_No_update (\<lambda>_. None)) (filter ?differs (rows df))"
    by (simp add: new_df_def renumber_other_columns) (simp add: kept_def)
  have "map Name_of_Faculty (rows new_df) = map Name_of_Faculty (filter ?differs (rows df))"
  proof -
    have "map Name_of_Faculty (rows new_df) =
        map Name_of_Faculty (map (Sr_No_update (\<lambda>_. None)) (rows new_df))"
      by simp
    also have "\<dots> = map Name_of_Faculty (map (Sr_No_update (\<lambda>_. None)) (filter ?differs (rows df)))"
      by (simp only: other)
    also have "\<dots> = map Name_of_Faculty (filter ?differs (rows df))"
      by simp
    finally show ?thesis .
  qed
  then have "\<forall>n \<in> set (map Name_of_Faculty (rows new_df)).
      py_lower n \<noteq> py_lower (py_strip delete_name)"
    by auto
  then have "filter (\<lambda>r. py_lower (Name_of_Faculty r) = py_lower (py_strip delete_name))
      (rows new_df) = []"
    by (simp add: filter_empty_conv)
  with saved other show ?thesis by blast
qed

theorem delete_removes_every_match_witness:
  "py_strip ''alice '' \<noteq> [] \<and>
   files (world_of df_two_alices) DATA_PATH = Some df_two_alices \<and>
   length (filter (\<lambda>r. py_lower (Name_of_Faculty r) = py_lower (py_strip ''alice ''))
     (rows df_two_alices)) = 2 \<and>
   rows df_two_alices ! 0 \<in> set (rows df_two_alices) \<and>
   py_lower (Name_of_Faculty (rows df_two_alices ! 0)) = py_lower (py_strip ''alice '') \<and>
   to_excel_raises env_jdoe DATA_PATH = None \<and>
   (\<exists>new_df. files (snd (delete_faculty env_jdoe ADMIN_PASSWORD ''alice ''
                 (world_of df_two_alices))) DATA_PATH = Some new_df
      \<and> filter (\<lambda>r. py_lower (Name_of_Faculty r) = py_lower (py_strip ''alice ''))
           (rows new_df) = []
      \<and> map (Sr_No_update (\<lambda>_. None)) (rows new_df) =
         map (Sr_No_update (\<lambda>_. None))
           (filter (\<lambda>r. py_lower (Name_of_Faculty r) \<noteq> py_lower (py_strip ''alice ''))
              (rows df_two_alices)))"
proof -
  have h2: "py_strip ''alice '' \<noteq> []"
    by code_simp
  have h3: "files (world_of df_two_alices) DATA_PATH = Some df_two_alices"
    by (simp add: world_of_def)
  have two: "length (filter (\<lambda>r. py_lower (Name_of_Faculty r) = py_lower (py_strip ''alice ''))
     (rows df_two_alices)) = 2"
    by code_simp
  have h4: "rows df_two_alices ! 0 \<in> set (rows df_two_alices)"
    by (simp add: df_two_alices_def)
  have h5: "py_lower (Name_of_Faculty (rows df_two_alices ! 0)) = py_lower (py_strip ''alice '')"
    by code_simp
  have h6: "to_excel_raises env_jdoe DATA_PATH = None"
    by (simp add: env_jdoe_def env_of_def)
  show ?thesis
    using h2 h3 two h4 h5 h6 delete_removes_every_match [OF refl h2 h3 h4 h5 h6]
    by blast
qed

section \<open>update\_excel\<close>

lemma upt_0_3: "[0..<3] = [0, Suc 0, Suc (Suc 0)]"
  by (simp add: numeral_3_eq_3)

lemma startswith_nonempty: "startswith s ''http'' \<Longrightarrow> s \<noteq> []"
  by (auto simp add: startswith_def)

text \<open>
  C2. Take a table of three rows A, B and C, where the URL of A starts with \<^verbatim>\<open>http\<close> and
  its fetch returns metrics, the URL of B is empty (or anything that does not start with
  \<^verbatim>\<open>http\<close>), and the URL of C starts with \<^verbatim>\<open>http\<close> and its fetch returns \<open>None\<close>. Then
  \<open>update_excel\<close> reports 1 updated row out of 3 and the failed names B, C in this order.
  When the write succeeds, the table with the metrics of A filled in is written to the
  snapshot path and to no other path; the primary file still holds the table as loaded.
\<close>

theorem update_excel_three_rows:
  assumes "files w DATA_PATH = Some df"
    and "rows df = [a, b, c]"
    and "startswith (py_strip (Profile_URL a)) ''http''"
    and "\<not> startswith (py_strip (Profile_URL b)) ''http''"
    and "startswith (py_strip (Profile_URL c)) ''http''"
    and "fetch_scholar_data env (py_strip (Profile_URL a)) 2
           (print_line (Updating (Name_of_Faculty a)) w) = (Inr (Some d), w1)"
    and "fetch_scholar_data env (py_strip (Profile_URL c)) 2
           (print_line (Updating (Name_of_Faculty c)) (sleep w1)) = (Inr None, w2)"
    and "to_excel_raises env UPDATED_PATH = None"
  shows "fst (update_excel env w) =
           Inr (Result_all 1 3 [Name_of_Faculty b, Name_of_Faculty c] True)
         \<and> files (snd (update_excel env w)) =
             (files w)(UPDATED_PATH \<mapsto>
               df\<lparr>rows := [a\<lparr>Citations := Some (m_Citations d), h_index := Some (m_H_index d),
                              i10_index := Some (m_i10_index d)\<rparr>, b, c]\<rparr>)
         \<and> files (snd (update_excel env w)) DATA_PATH = Some df"
proof -
  let ?a' = "a\<lparr>Citations := Some (m_Citations d), h_index := Some (m_H_index d),
                i10_index := Some (m_i10_index d)\<rparr>"
  have f1: "files w1 = files w"
    using fetch_files [of env "py_strip (Profile_URL a)" 2
        "print_line (Updating (Name_of_Faculty a)) w"] assms(6)
    by simp
  have f2: "files w2 = files w"
    using fetch_files [of env "py_strip (Profile_URL c)" 2
        "print_line (Updating (Name_of_Faculty c)) (sleep w1)"] assms(7) f1
    by simp
  have na: "py_strip (Profile_URL a) \<noteq> []" and nc: "py_strip (Profile_URL c) \<noteq> []"
    using assms(3,5) by (simp_all add: startswith_nonempty)
  have loop: "update_rows env (iterrows df) df 0 [] w =
      (Inr (df\<lparr>rows := [?a', b, c]\<rparr>, 1, [Name_of_Faculty b, Name_of_Faculty c]), sleep w2)"
    using assms(2-7) na nc
    by (simp add: iterrows_def upt_0_3 at_set_def Let_def)
  have "update_excel env w =
      (Inr (Result_all 1 3 [Name_of_Faculty b, Name_of_Faculty c] True),
       (sleep w2)\<lparr>files := (files (sleep w2))(UPDATED_PATH \<mapsto> df\<lparr>rows := [?a', b, c]\<rparr>)\<rparr>)"
    using assms(1,8) loop
    by (simp add: update_excel_def load_faculty_df_Some save_or_skip_ok)
  then show ?thesis
    using f2 assms(1) paths_differ by simp
qed

theorem update_excel_three_rows_witness:
  "files (world_of df_abc) DATA_PATH = Some df_abc \<and>
   startswith (py_strip (Profile_URL (rows df_abc ! 0))) ''http'' \<and>
   py_strip (Profile_URL (rows df_abc ! 1)) = [] \<and>
   startswith (py_strip (Profile_URL (rows df_abc ! 2))) ''http'' \<and>
   fst (fetch_scholar_data env_only_aaa (py_strip (Profile_URL (rows df_abc ! 0))) 2
          (print_line (Updating ''A'') (world_of df_abc))) =
     Inr (Some \<lparr>m_Name = JStr ''J. Doe'', m_Citations = 120, m_H_index = 9, m_i10_index = 4\<rparr>) \<and>
   to_excel_raises env_only_aaa UPDATED_PATH = None \<and>
   fst (update_excel env_only_aaa (world_of df_abc)) = Inr (Result_all 1 3 [''B'', ''C''] True) \<and>
   files (snd (update_excel env_only_aaa (world_of df_abc))) DATA_PATH = Some df_abc \<and>
   files (snd (update_excel env_only_aaa (world_of df_abc))) UPDATED_PATH =
     Some (df_abc\<lparr>rows :=
       [\<lparr>Sr_No = Some 1, Name_of_Faculty = ''A'', Profile_URL = url_aaa,
         Citations = Some 120, h_index = Some 9, i10_index = Some 4\<rparr>,
        rows df_abc ! 1, rows df_abc ! 2]\<rparr>)"
proof -
  let ?a = "rows df_abc ! 0" and ?b = "rows df_abc ! 1" and ?c = "rows df_abc ! 2"
  let ?d = "\<lparr>m_Name = JStr ''J. Doe'', m_Citations = 120, m_H_index = 9, m_i10_index = 4\<rparr>"
  let ?wa = "print_line (Updating (Name_of_Faculty ?a)) (world_of df_abc)"
  let ?w1 = "snd (fetch_scholar_data env_only_aaa (py_strip (Profile_URL ?a)) 2 ?wa)"
  let ?wc = "print_line (Updating (Name_of_Faculty ?c)) (sleep ?w1)"
  let ?w2 = "snd (fetch_scholar_data env_only_aaa (py_strip (Profile_URL ?c)) 2 ?wc)"
  have h1: "files (world_of df_abc) DATA_PATH = Some df_abc"
    by (simp add: world_of_def)
  have h2: "rows df_abc = [?a, ?b, ?c]"
    by (simp add: df_abc_def)
  have h3: "startswith (py_strip (Profile_URL ?a)) ''http''"
    by code_simp
  have hb: "py_strip (Profile_URL ?b) = []"
    by code_simp
  then have h4: "\<not> startswith (py_strip (Profile_URL ?b)) ''http''"
    by (simp add: startswith_def)
  have h5: "startswith (py_strip (Profile_URL ?c)) ''http''"
    by code_simp
  have ua: "py_strip (Profile_URL ?a) = url_aaa" and uc: "py_strip (Profile_URL ?c) = url_bbb"
    by code_simp+
  have ia: "py_in ''user='' url_aaa" and ea: "extract_user_id url_aaa = Inr ''aaa''"
    by code_simp+
  have ib: "py_in ''user='' url_bbb" and eb: "extract_user_id url_bbb = Inr ''bbb''"
    by code_simp+
  have oa: "attempt_outcome env_only_aaa (scholar_params env_only_aaa ''aaa'') k = Inr (Got ?d)"
    for k
    by (simp add: attempt_outcome_def env_only_aaa_def env_of_def scholar_params_def doc_jdoe_def
        read_results_def normalize_def metric_group_def window_value_def py_or_def py_index_def)
  have oc: "attempt_outcome env_only_aaa (scholar_params env_only_aaa ''bbb'') k =
      Inl (LibraryError ''timeout'')" for k
    by (simp add: attempt_outcome_def env_only_aaa_def env_of_def scholar_params_def)
  have ra: "fst (fetch_scholar_data env_only_aaa (py_strip (Profile_URL ?a)) 2 ?wa) = Inr (Some ?d)"
    using ia ea oa by (simp add: ua fetch_with_marker upt_0_2 attempts_Cons del: attempts.simps)
  have rc: "fst (fetch_scholar_data env_only_aaa (py_strip (Profile_URL ?c)) 2 ?wc) = Inr None"
    using ib eb oc by (simp add: uc fetch_with_marker upt_0_2 attempts_Cons del: attempts.simps(2))
  have h6: "fetch_scholar_data env_only_aaa (py_strip (Profile_URL ?a)) 2 ?wa = (Inr (Some ?d), ?w1)"
    using ra by (simp add: prod_eq_iff)
  have h7: "fetch_scholar_data env_only_aaa (py_strip (Profile_URL ?c)) 2 ?wc = (Inr None, ?w2)"
    using rc by (simp add: prod_eq_iff)
  have h8: "to_excel_raises env_only_aaa UPDATED_PATH = None"
    by (simp add: env_only_aaa_def env_of_def)
  have na: "Name_of_Faculty ?a = ''A''" and nb: "Name_of_Faculty ?b = ''B''"
    and nc: "Name_of_Faculty ?c = ''C''"
    by (simp_all add: df_abc_def)
  have a': "?a\<lparr>Citations := Some (m_Citations ?d), h_index := Some (m_H_index ?d),
      i10_index := Some (m_i10_index ?d)\<rparr> =
      \<lparr>Sr_No = Some 1, Name_of_Faculty = ''A'', Profile_URL = url_aaa,
       Citations = Some 120, h_index = Some 9, i10_index = Some 4\<rparr>"
    by (simp add: df_abc_def)
  note t = update_excel_three_rows [OF h1 h2 h3 h4 h5 h6 h7 h8]
  from t [THEN conjunct1] have c1: "fst (update_excel env_only_aaa (world_of df_abc)) =
      Inr (Result_all 1 3 [''B'', ''C''] True)"
    by (simp only: nb nc)
  have c2: "files (snd (update_excel env_only_aaa (world_of df_abc))) DATA_PATH = Some df_abc"
    by (rule t [THEN conjunct2, THEN conjunct2])
  have "files (snd (update_excel env_only_aaa (world_of df_abc))) UPDATED_PATH =
     Some (df_abc\<lparr>rows := [?a\<lparr>Citations := Some (m_Citations ?d),
       h_index := Some (m_H_index ?d), i10_index := Some (m_i10_index ?d)\<rparr>, ?b, ?c]\<rparr>)"
    by (simp only: t [THEN conjunct2, THEN conjunct1] fun_upd_same)
  then have c3: "files (snd (update_excel env_only_aaa (world_of df_abc))) UPDATED_PATH =
     Some (df_abc\<lparr>rows :=
       [\<lparr>Sr_No = Some 1, Name_of_Faculty = ''A'', Profile_URL = url_aaa,
         Citations = Some 120, h_index = Some 9, i10_index = Some 4\<rparr>, ?b, ?c]\<rparr>)"
    by (simp only: a')
  from h1 h3 hb h5 ra h8 c1 c2 c3 show ?thesis
    by (simp add: na)
qed

section \<open>fetch\_one\<close>

text \<open>
  C1. The table \<open>df_two_alices\<close> has the rows Alice (profile \<open>aaa\<close>, no metrics yet), Bob,
  and ALICE (profile \<open>bbb\<close>, 7 citations, h-index 3, i10-index 1). \<open>fetch_one\<close> for the name
  \<^verbatim>\<open>alice\<close> fetches the profile of the first match, Alice, and writes its metrics 120, 9
  and 4 into both rows that match: the metrics of the row ALICE are not left as they were.
\<close>

theorem fetch_one_writes_every_match:
  "fst (fetch_one env_jdoe ''alice'' (world_of df_two_alices)) =
     Inr (Result_one_data
            \<lparr>m_Name = JStr ''J. Doe'', m_Citations = 120, m_H_index = 9, m_i10_index = 4\<rparr>
            ''alice'' url_aaa) \<and>
   trace (snd (fetch_one env_jdoe ''alice'' (world_of df_two_alices))) =
     [Api_call (scholar_params env_jdoe ''aaa''), Print (Fetched (JStr ''J. Doe'') 120 9 4)] \<and>
   files (snd (fetch_one env_jdoe ''alice'' (world_of df_two_alices))) DATA_PATH =
     Some \<lparr>has_Sr_No = True,
      rows =
        [\<lparr>Sr_No = Some 1, Name_of_Faculty = ''Alice'', Profile_URL = url_aaa,
          Citations = Some 120, h_index = Some 9, i10_index = Some 4\<rparr>,
         \<lparr>Sr_No = Some 2, Name_of_Faculty = ''Bob'', Profile_URL = url_bbb,
          Citations = Some 50, h_index = Some 5, i10_index = Some 2\<rparr>,
         \<lparr>Sr_No = Some 3, Name_of_Faculty = ''ALICE'', Profile_URL = url_bbb,
          Citations = Some 120, h_index = Some 9, i10_index = Some 4\<rparr>]\<rparr>"
  by code_simp

section \<open>The windows of a metric group\<close>

lemma window_value_dict:
  "window_value (JDict d) =
     Inr (if usable d ''all'' then the (map_of d ''all'')
          else if usable d ''since_2020'' then the (map_of d ''since_2020'')
          else if usable d ''since_2019'' then the (map_of d ''since_2019'')
          else JInt 0)"
  by (simp add: window_value_def usable_def py_or_def split: option.splits)

lemma metric_group_short:
  "length gs \<le> k \<Longrightarrow> metric_group (JList gs) k key = Inr (JInt 0)"
  by (simp add: metric_group_def)

lemma metric_group_no_key:
  "k < length gs \<Longrightarrow> gs ! k = JDict g \<Longrightarrow> map_of g key = None \<Longrightarrow>
     metric_group (JList gs) k key = Inr (JInt 0)"
  by (simp add: metric_group_def py_index_def py_or_def window_value_def)

lemma metric_group_dict:
  "k < length gs \<Longrightarrow> gs ! k = JDict g \<Longrightarrow> map_of g key = Some (JDict d) \<Longrightarrow>
     metric_group (JList gs) k key = window_value (JDict d)"
  by (cases d) (simp_all add: metric_group_def py_index_def py_or_def window_value_def)

text \<open>
  C5, the counterexample. The document \<open>doc_zero_all\<close> has the group
  \<^verbatim>\<open>{citations: {all: 0, since_2020: 5}}\<close>: the all-time value is present, and yet the
  record that \<open>fetch_scholar_data\<close> returns has 5 citations, the value since 2020.
\<close>

theorem fetch_zero_all_falls_back:
  "fst (fetch_scholar_data env_zero_all url_aaa 2 (world_of df_abc)) =
     Inr (Some \<lparr>m_Name = JStr ''J. Doe'', m_Citations = 5, m_H_index = 9, m_i10_index = 4\<rparr>)"
  by code_simp

text \<open>
  C5, as amended. The normalization reads the group of the citations at position 0 of
  \<^verbatim>\<open>cited_by.table\<close>, the h-index at position 1 and the i10-index at position 2, and the
  record holds \<^verbatim>\<open>int\<close> of what it selects. Per group it selects the value of \<^verbatim>\<open>all\<close> when
  that value is present and truthy; the value of \<^verbatim>\<open>since_2020\<close>, then of \<^verbatim>\<open>since_2019\<close>,
  when every value before it is absent or falsy (\<^verbatim>\<open>None\<close> or 0); and 0 when none of the three
  is present and truthy. The metric is 0 as well when the table has no entry at the
  position of the group, or the entry there has no key of the group.
\<close>

theorem metric_selection:
  "(dict_get results ''cited_by'' (JDict []) = Inr cited_by \<and>
    dict_get cited_by ''table'' (JList []) = Inr table \<and>
    normalize results = Inr (name, c, h, i) \<longrightarrow>
      metric_group table 0 ''citations'' = Inr c \<and>
      metric_group table 1 ''h_index'' = Inr h \<and>
      metric_group table 2 ''i10_index'' = Inr i) \<and>
   (normalize results = Inr (name, c, h, i) \<and> read_results env results = Inr (Got m) \<longrightarrow>
      py_int (int_of_str env) (py_or c (JInt 0)) = Inr (m_Citations m) \<and>
      py_int (int_of_str env) (py_or h (JInt 0)) = Inr (m_H_index m) \<and>
      py_int (int_of_str env) (py_or i (JInt 0)) = Inr (m_i10_index m)) \<and>
   (length gs \<le> k \<longrightarrow> metric_group (JList gs) k key = Inr (JInt 0)) \<and>
   (k < length gs \<and> gs ! k = JDict g \<and> map_of g key = None \<longrightarrow>
      metric_group (JList gs) k key = Inr (JInt 0)) \<and>
   (k < length gs \<and> gs ! k = JDict g \<and> map_of g key = Some (JDict d) \<longrightarrow>
      (map_of d ''all'' = Some v \<and> truthy v \<longrightarrow> metric_group (JList gs) k key = Inr v) \<and>
      (\<not> usable d ''all'' \<and> map_of d ''since_2020'' = Some v \<and> truthy v \<longrightarrow>
         metric_group (JList gs) k key = Inr v) \<and>
      (\<not> usable d ''all'' \<and> \<not> usable d ''since_2020'' \<and>
       map_of d ''since_2019'' = Some v \<and> truthy v \<longrightarrow>
         metric_group (JList gs) k key = Inr v) \<and>
      (\<not> usable d ''all'' \<and> \<not> usable d ''since_2020'' \<and> \<not> usable d ''since_2019'' \<longrightarrow>
         metric_group (JList gs) k key = Inr (JInt 0)))"
proof (intro conjI impI)
  assume a: "dict_get results ''cited_by'' (JDict []) = Inr cited_by \<and>
    dict_get cited_by ''table'' (JList []) = Inr table \<and>
    normalize results = Inr (name, c, h, i)"
  then have n: "normalize results = Inr (name, c, h, i)"
    and cb: "dict_get results ''cited_by'' (JDict []) = Inr cited_by"
    and tb: "dict_get cited_by ''table'' (JList []) = Inr table"
    by simp_all
  from n show "metric_group table 0 ''citations'' = Inr c"
    by (auto simp add: normalize_def cb tb and_then_def split: sum.splits)
  from n show "metric_group table 1 ''h_index'' = Inr h"
    by (auto simp add: normalize_def cb tb and_then_def split: sum.splits)
  from n show "metric_group table 2 ''i10_index'' = Inr i"
    by (auto simp add: normalize_def cb tb and_then_def split: sum.splits)
next
  assume a: "normalize results = Inr (name, c, h, i) \<and> read_results env results = Inr (Got m)"
  then have n: "normalize results = Inr (name, c, h, i)"
    and rr: "read_results env results = Inr (Got m)"
    by simp_all
  from rr have r: "(if name = JStr ''Unknown'' \<and> py_eq_0 c \<and> py_eq_0 h then Inr Retry
     else
       and_then (py_int (int_of_str env) (py_or c (JInt 0))) (\<lambda>c'.
       and_then (py_int (int_of_str env) (py_or h (JInt 0))) (\<lambda>h'.
       and_then (py_int (int_of_str env) (py_or i (JInt 0))) (\<lambda>i'.
       Inr (Got \<lparr>m_Name = name, m_Citations = c', m_H_index = h', m_i10_index = i'\<rparr>)))))
     = Inr (Got m)"
    by (simp add: read_results_def n)
  from r show "py_int (int_of_str env) (py_or c (JInt 0)) = Inr (m_Citations m)"
    by (auto simp add: and_then_def split: sum.splits if_splits)
  from r show "py_int (int_of_str env) (py_or h (JInt 0)) = Inr (m_H_index m)"
    by (auto simp add: and_then_def split: sum.splits if_splits)
  from r show "py_int (int_of_str env) (py_or i (JInt 0)) = Inr (m_i10_index m)"
    by (auto simp add: and_then_def split: sum.splits if_splits)
next
  assume "length gs \<le> k"
  then show "metric_group (JList gs) k key = Inr (JInt 0)"
    by (rule metric_group_short)
next
  assume "k < length gs \<and> gs ! k = JDict g \<and> map_of g key = None"
  then show "metric_group (JList gs) k key = Inr (JInt 0)"
    by (simp add: metric_group_no_key)
next
  assume "k < length gs \<and> gs ! k = JDict g \<and> map_of g key = Some (JDict d)"
    and "map_of d ''all'' = Some v \<and> truthy v"
  then show "metric_group (JList gs) k key = Inr v"
    by (simp add: metric_group_dict window_value_dict usable_def)
next
  assume "k < length gs \<and> gs ! k = JDict g \<and> map_of g key = Some (JDict d)"
    and "\<not> usable d ''all'' \<and> map_of d ''since_2020'' = Some v \<and> truthy v"
  then show "metric_group (JList gs) k key = Inr v"
    by (simp add: metric_group_dict window_value_dict) (simp add: usable_def)
next
  assume "k < length gs \<and> gs ! k = JDict g \<and> map_of g key = Some (JDict d)"
    and "\<not> usable d ''all'' \<and> \<not> usable d ''since_2020'' \<and>
       map_of d ''since_2019'' = Some v \<and> truthy v"
  then show "metric_group (JList gs) k key = Inr v"
    by (simp add: metric_group_dict window_value_dict) (simp add: usable_def)
next
  assume "k < length gs \<and> gs ! k = JDict g \<and> map_of g key = Some (JDict d)"
    and "\<not> usable d ''all'' \<and> \<not> usable d ''since_2020'' \<and> \<not> usable d ''since_2019''"
  then show "metric_group (JList gs) k key = Inr (JInt 0)"
    by (simp add: metric_group_dict window_value_dict)
qed

theorem metric_selection_witness:
  "dict_get doc_zero_all ''cited_by'' (JDict []) = Inr (JDict [(''table'', JList table_zero_all)]) \<and>
   dict_get (JDict [(''table'', JList table_zero_all)]) ''table'' (JList []) =
     Inr (JList table_zero_all) \<and>
   normalize doc_zero_all = Inr (JStr ''J. Doe'', JInt 5, JInt 9, JInt 4) \<and>
   read_results env_zero_all doc_zero_all =
     Inr (Got \<lparr>m_Name = JStr ''J. Doe'', m_Citations = 5, m_H_index = 9, m_i10_index = 4\<rparr>) \<and>
   metric_group (JList table_zero_all) 0 ''citations'' = Inr (JInt 5) \<and>
   metric_group (JList table_zero_all) 1 ''h_index'' = Inr (JInt 9) \<and>
   metric_group (JList table_zero_all) 2 ''i10_index'' = Inr (JInt 4) \<and>
   py_int (int_of_str env_zero_all) (py_or (JInt 5) (JInt 0)) = Inr 5 \<and>
   length (take 2 table_zero_all) \<le> 2 \<and>
   metric_group (JList (take 2 table_zero_all)) 2 ''i10_index'' = Inr (JInt 0) \<and>
   map_of [(''citations'', JDict [(''all'', JInt 0), (''since_2020'', JInt 5)])] ''h_index'' = None \<and>
   metric_group (JList table_zero_all) 0 ''h_index'' = Inr (JInt 0) \<and>
   \<not> usable [(''all'', JInt 0), (''since_2020'', JInt 5)] ''all'' \<and>
   map_of [(''all'', JInt 0), (''since_2020'', JInt 5)] ''since_2020'' = Some (JInt 5) \<and>
   truthy (JInt 5) \<and>
   map_of [(''all'', JInt 9)] ''all'' = Some (JInt 9) \<and> truthy (JInt 9)"
proof -
  let ?cb = "JDict [(''table'', JList table_zero_all)]"
  let ?m = "\<lparr>m_Name = JStr ''J. Doe'', m_Citations = 5, m_H_index = 9, m_i10_index = 4\<rparr>"
  let ?g0 = "[(''citations'', JDict [(''all'', JInt 0), (''since_2020'', JInt 5)])]"
  let ?d0 = "[(''all'', JInt 0), (''since_2020'', JInt 5)]"
  let ?g1 = "[(''h_index'', JDict [(''all'', JInt 9)])]"
  let ?d1 = "[(''all'', JInt 9)]"
  have a1: "dict_get doc_zero_all ''cited_by'' (JDict []) = Inr ?cb"
    by (simp add: doc_zero_all_def)
  have a2: "dict_get ?cb ''table'' (JList []) = Inr (JList table_zero_all)"
    by simp
  have a3: "normalize doc_zero_all = Inr (JStr ''J. Doe'', JInt 5, JInt 9, JInt 4)"
    by code_simp
  have a4: "read_results env_zero_all doc_zero_all = Inr (Got ?m)"
    by code_simp
  have b1: "length (take 2 table_zero_all) \<le> 2"
    by simp
  have k0: "0 < length table_zero_all" and k1: "1 < length table_zero_all"
    by (simp_all add: table_zero_all_def)
  have e0: "table_zero_all ! 0 = JDict ?g0" and e1: "table_zero_all ! 1 = JDict ?g1"
    by (simp_all add: table_zero_all_def)
  have c1: "map_of ?g0 ''h_index'' = None"
    by simp
  have d1: "map_of ?g0 ''citations'' = Some (JDict ?d0)"
    by simp
  have d2: "\<not> usable ?d0 ''all''"
    by (simp add: usable_def)
  have d3: "map_of ?d0 ''since_2020'' = Some (JInt 5)" and d4: "truthy (JInt 5)"
    by simp_all
  have f1: "map_of ?g1 ''h_index'' = Some (JDict ?d1)"
    by simp
  have f2: "map_of ?d1 ''all'' = Some (JInt 9)" and f3: "truthy (JInt 9)"
    by simp_all
  from metric_selection [of doc_zero_all ?cb "JList table_zero_all" "JStr ''J. Doe''"
      "JInt 5" "JInt 9" "JInt 4" env_zero_all ?m] a1 a2 a3 a4
  have r1: "metric_group (JList table_zero_all) 0 ''citations'' = Inr (JInt 5)"
    and r2: "metric_group (JList table_zero_all) 1 ''h_index'' = Inr (JInt 9)"
    and r3: "metric_group (JList table_zero_all) 2 ''i10_index'' = Inr (JInt 4)"
    and r4: "py_int (int_of_str env_zero_all) (py_or (JInt 5) (JInt 0)) = Inr 5"
    by simp_all
  from metric_selection [where gs = "take 2 table_zero_all" and k = 2 and key = "''i10_index''"] b1
  have r5: "metric_group (JList (take 2 table_zero_all)) 2 ''i10_index'' = Inr (JInt 0)"
    by blast
  from metric_selection [where gs = table_zero_all and k = 0 and key = "''h_index''"
      and g = ?g0] k0 e0 c1
  have r6: "metric_group (JList table_zero_all) 0 ''h_index'' = Inr (JInt 0)"
    by blast
  from metric_selection [where gs = table_zero_all and k = 0 and key = "''citations''"
      and g = ?g0 and d = ?d0 and v = "JInt 5"] k0 e0 d1 d2 d3 d4
  have r7: "metric_group (JList table_zero_all) 0 ''citations'' = Inr (JInt 5)"
    by blast
  from metric_selection [where gs = table_zero_all and k = 1 and key = "''h_index''"
      and g = ?g1 and d = ?d1 and v = "JInt 9"] k1 e1 f1 f2 f3
  have r8: "metric_group (JList table_zero_all) 1 ''h_index'' = Inr (JInt 9)"
    by blast
  from a1 a2 a3 a4 r7 r8 r3 r4 b1 r5 c1 r6 d2 d3 d4 f2 f3 show ?thesis
    by blast
qed

section \<open>A save that fails\<close>

















end
